theory Spec2Isabelle
  imports Complex_Main
begin

section \<open>Data model (shared/schema.ts)\<close>

text \<open>
  The marketplace keeps its state in PostgreSQL tables. Each table is a list of rows, in
  the order the rows were inserted; an \<open>UPDATE\<close> rewrites a row where it stands in the
  list. Identifiers are the \<open>varchar\<close> keys of the schema. Monetary columns are
  \<open>decimal(18,2)\<close>; they are held here as a whole number of hundredths. Timestamps are
  milliseconds since the epoch.

  Columns that no modelled handler reads (names, e-mail, titles, notes, \<open>updatedAt\<close>)
  and the tables \<open>admin_logs\<close> and \<open>notifications\<close> are left out;
  \<open>sendNotification\<close> catches its own errors.
\<close>

type_synonym ident = string
type_synonym money = int
type_synonym time = int

datatype category = Account | Software
datatype item_status = Available | Reserved | Sold
datatype order_status = PendingPayment | PendingConfirmation | Paid | Cancelled | Refunded
datatype payment_method = Qr | Wallet | Manual
datatype transaction_type = Credit | Debit
datatype earning_status = Pending | Released | EarningCancelled

text \<open>
  The \<open>reason\<close> column of a wallet transaction is free text built from a template; the
  model keeps which template was used.
\<close>

datatype reason = Purchase | ReferralCommission | SaleReleased | SaleReleasedAuto

text \<open>
  \<open>referrals.commissionRate\<close> reaches the handler as a string or null. \<open>RateUnset\<close> is
  a null or empty value, \<open>RateInvalid\<close> a string \<open>parseFloat\<close> maps to NaN, and
  \<open>RatePercent p\<close> the number \<open>p / 100\<close> (so \<open>RatePercent 500\<close> is "5.00").
\<close>

datatype stored_rate = RateUnset | RateInvalid | RatePercent int

record user_row =
  u_id :: ident
  walletBalance :: money

record product_row =
  p_id :: ident
  p_sellerId :: ident
  p_category :: category
  p_price :: money
  stock :: int

record item_row =
  i_id :: ident
  i_productId :: ident
  content :: string
  i_status :: item_status
  reservedUntil :: "time option"

record order_row =
  o_id :: ident
  orderCode :: string
  buyerId :: ident
  o_sellerId :: ident
  o_productId :: ident
  productItemId :: "ident option"
  quantity :: int
  o_price :: money
  paymentMethod :: payment_method
  o_status :: order_status
  deliveredContent :: "string option"
  o_createdAt :: "time option"

record transaction_row =
  t_userId :: ident
  t_type :: transaction_type
  t_amount :: money
  t_reason :: reason
  relatedOrderId :: "ident option"

record earning_row =
  e_id :: ident
  e_sellerId :: ident
  e_orderId :: ident
  e_amount :: money
  e_status :: earning_status
  releaseAt :: time
  releasedAt :: "time option"

record referral_row =
  r_id :: ident
  referrerId :: ident
  referredId :: ident
  commissionRate :: stored_rate
  totalEarned :: money
  isActive :: bool

record referral_code_row =
  c_userId :: ident
  totalEarnings :: money

record db =
  users :: "user_row list"
  products :: "product_row list"
  productItems :: "item_row list"
  orders :: "order_row list"
  walletTransactions :: "transaction_row list"
  pendingEarnings :: "earning_row list"
  referrals :: "referral_row list"
  userReferralCodes :: "referral_code_row list"

text \<open>
  What a request takes from outside the store: the clock, the values the database and
  \<open>createOrder\<close> generate for a new row (\<open>gen_random_uuid()\<close>, and the order code
  built from \<open>Date.now()\<close> and \<open>Math.random()\<close>), and the server's time zone:
  \<open>localOffset\<close> is local time minus UTC at the time of the request, and
  \<open>localOffsetAtRelease\<close> the same at the local time three calendar days later.
\<close>

record env =
  now :: time
  newOrderId :: ident
  newOrderCode :: string
  newEarningId :: ident
  localOffset :: time
  localOffsetAtRelease :: time

definition minutes30 :: time where
  "minutes30 = 30 * 60 * 1000"

definition days3 :: time where
  "days3 = 3 * 24 * 60 * 60 * 1000"

section \<open>Amounts (JavaScript numbers)\<close>

text \<open>
  The handlers compute amounts with \<open>parseFloat\<close>, the arithmetic of JavaScript numbers
  and \<open>toFixed(2)\<close>. A JavaScript number is an IEEE 754 double. A finite double is held
  here as a pair \<open>(m, e)\<close> standing for \<open>m * 2 ^ e\<close>; a nonzero result of an operation
  has \<open>2 ^ 52 \<le> \<bar>m\<bar> \<le> 2 ^ 53\<close>. Every operation returns the double nearest to the
  exact result, a tie going to the even mantissa. Subnormal numbers, overflow and NaN are
  out of the model: no amount of a \<open>decimal(18,2)\<close> column comes near them.

  \<open>width n\<close> is the number of binary digits of \<open>n\<close>, and \<open>roundDouble p q s\<close> the
  double nearest to \<open>(p / q) * 2 ^ s\<close>, for \<open>q > 0\<close>.
\<close>

type_synonym double = "int \<times> int"

function width :: "int \<Rightarrow> int" where
  "width n = (if n \<le> 0 then 0 else 1 + width (n div 2))"
  by pat_completeness auto
termination
  by (relation "measure nat") auto

declare width.simps [simp del]

definition roundNearestEven :: "int \<Rightarrow> int \<Rightarrow> int" where
  "roundNearestEven n d =
     (let q = n div d; r = n mod d
      in if d < 2 * r \<or> (2 * r = d \<and> odd q) then q + 1 else q)"

definition roundPos :: "int \<Rightarrow> int \<Rightarrow> int \<Rightarrow> double" where
  "roundPos p q s =
     (let k = width p - width q - 53;
          n = (if k < 0 then p * 2 ^ nat (- k) else p);
          d = (if k < 0 then q else q * 2 ^ nat k)
      in if n < d * 2 ^ 53 then (roundNearestEven n d, k + s)
         else (roundNearestEven n (2 * d), k + 1 + s))"

definition roundDouble :: "int \<Rightarrow> int \<Rightarrow> int \<Rightarrow> double" where
  "roundDouble p q s =
     (if p = 0 then (0, 0)
      else if 0 < p then roundPos p q s
      else (case roundPos (- p) q s of (m, e) \<Rightarrow> (- m, e)))"

text \<open>
  \<open>parseFloat\<close> of the text of a \<open>decimal(18,2)\<close> value, given in hundredths; the
  number of an integer; the product, difference, sum and quotient of two numbers, and
  the comparison \<open><\<close>.
\<close>

definition parseFloat :: "money \<Rightarrow> double" where
  "parseFloat n = roundDouble n 100 0"

definition ofInteger :: "int \<Rightarrow> double" where
  "ofInteger n = roundDouble n 1 0"

definition fmul :: "double \<Rightarrow> double \<Rightarrow> double" where
  "fmul x y = roundDouble (fst x * fst y) 1 (snd x + snd y)"

definition fsub :: "double \<Rightarrow> double \<Rightarrow> double" where
  "fsub x y =
     (let e = min (snd x) (snd y)
      in roundDouble (fst x * 2 ^ nat (snd x - e) - fst y * 2 ^ nat (snd y - e)) 1 e)"

definition fadd :: "double \<Rightarrow> double \<Rightarrow> double" where
  "fadd x y =
     (let e = min (snd x) (snd y)
      in roundDouble (fst x * 2 ^ nat (snd x - e) + fst y * 2 ^ nat (snd y - e)) 1 e)"

definition fless :: "double \<Rightarrow> double \<Rightarrow> bool" where
  "fless x y \<longleftrightarrow>
     (let e = min (snd x) (snd y)
      in fst x * 2 ^ nat (snd x - e) < fst y * 2 ^ nat (snd y - e))"

definition fdiv :: "double \<Rightarrow> double \<Rightarrow> double" where
  "fdiv x y =
     (if 0 < fst y then roundDouble (fst x) (fst y) (snd x - snd y)
      else roundDouble (- fst x) (- fst y) (snd x - snd y))"

text \<open>
  \<open>toFixed(2)\<close>, read back in hundredths: the whole number of hundredths nearest to the
  exact value of the double, a tie going away from zero (\<open>Number.prototype.toFixed\<close>
  takes the sign off and picks the larger candidate). Numbers of magnitude \<open>10 ^ 21\<close> and
  more, which \<open>toFixed\<close> prints with an exponent, are out of the model.
\<close>

definition toFixed2 :: "double \<Rightarrow> money" where
  "toFixed2 x =
     (let a = \<bar>fst x\<bar> * 100;
          c = (if 0 \<le> snd x then a * 2 ^ nat (snd x)
               else (2 * a + 2 ^ nat (- snd x)) div (2 * 2 ^ nat (- snd x)))
      in if fst x < 0 then - c else c)"

text \<open>
  The handlers also add, subtract and compare two amounts, and multiply a price by the
  quantity, the arithmetic being followed by \<open>toFixed(2)\<close>. On amounts of two decimals
  up to \<open>10 ^ 13\<close> hundredths these give the exact sum, difference, order and product
  (lemmas \<open>sum_exact\<close>, \<open>difference_exact\<close>, \<open>less_exact\<close> and \<open>product_exact\<close>
  below), and the handlers are written with integer arithmetic on hundredths. The
  products with a percentage are not exact; they are computed on doubles below.
\<close>

text \<open>
  For the error analysis: the real number a double stands for, and \<open>near r x y\<close>, which
  says that \<open>x\<close> is \<open>y\<close> up to the relative error \<open>r\<close>.
\<close>

definition valueOf :: "double \<Rightarrow> real" where
  "valueOf x = real_of_int (fst x) * 2 powi (snd x)"

definition near :: "real \<Rightarrow> real \<Rightarrow> real \<Rightarrow> bool" where
  "near r x y \<longleftrightarrow> \<bar>x - y\<bar> \<le> r * \<bar>y\<bar>"

section \<open>Storage (DatabaseStorage)\<close>

definition getUser :: "ident \<Rightarrow> db \<Rightarrow> user_row option" where
  "getUser uid s = find (\<lambda>u. u_id u = uid) (users s)"

definition updateUserBalance :: "ident \<Rightarrow> money \<Rightarrow> db \<Rightarrow> db" where
  "updateUserBalance uid amount s =
     s\<lparr>users := map (\<lambda>u. if u_id u = uid then u\<lparr>walletBalance := amount\<rparr> else u) (users s)\<rparr>"

text \<open>\<open>updateUser\<close> with the one field of \<open>Partial<User>\<close> the model keeps.\<close>

definition updateUser :: "ident \<Rightarrow> money option \<Rightarrow> db \<Rightarrow> db" where
  "updateUser uid data s =
     (case data of
        None \<Rightarrow> s
      | Some b \<Rightarrow>
          s\<lparr>users := map (\<lambda>u. if u_id u = uid then u\<lparr>walletBalance := b\<rparr> else u) (users s)\<rparr>)"

definition creditUserWallet :: "ident \<Rightarrow> money \<Rightarrow> db \<Rightarrow> db" where
  "creditUserWallet uid amount s =
     (if amount \<le> 0 then s
      else s\<lparr>users :=
        map (\<lambda>u. if u_id u = uid then u\<lparr>walletBalance := walletBalance u + amount\<rparr> else u)
          (users s)\<rparr>)"

text \<open>The inner join with \<open>users\<close> drops a product whose seller row is missing.\<close>

definition getProductWithSeller :: "ident \<Rightarrow> db \<Rightarrow> product_row option" where
  "getProductWithSeller pid s =
     find (\<lambda>p. p_id p = pid \<and> (\<exists>u \<in> set (users s). u_id u = p_sellerId p)) (products s)"

definition updateProductStock :: "ident \<Rightarrow> int \<Rightarrow> db \<Rightarrow> db" where
  "updateProductStock pid n s =
     s\<lparr>products := map (\<lambda>p. if p_id p = pid then p\<lparr>stock := n\<rparr> else p) (products s)\<rparr>"

subsection \<open>Product items\<close>

definition expired :: "time \<Rightarrow> item_row \<Rightarrow> bool" where
  "expired t i \<longleftrightarrow>
     i_status i = Reserved \<and> (case reservedUntil i of None \<Rightarrow> False | Some r \<Rightarrow> r < t)"

definition release :: "item_row \<Rightarrow> item_row" where
  "release i = i\<lparr>i_status := Available, reservedUntil := None\<rparr>"

definition cleanupExpiredReservations :: "time \<Rightarrow> db \<Rightarrow> nat \<times> db" where
  "cleanupExpiredReservations t s =
     (length (filter (expired t) (productItems s)),
      s\<lparr>productItems := map (\<lambda>i. if expired t i then release i else i) (productItems s)\<rparr>)"

definition getAvailableProductItem :: "ident \<Rightarrow> db \<Rightarrow> item_row option" where
  "getAvailableProductItem pid s =
     find (\<lambda>i. i_productId i = pid \<and> i_status i = Available) (productItems s)"

text \<open>
  \<open>getAvailableProductItems\<close> first resets the expired reservations of the product, then
  selects the available rows of the product with \<open>.limit(count)\<close> and no \<open>ORDER BY\<close>.
  PostgreSQL writes the new version of an updated row behind the rows already there, so
  the scan meets the rows just reset after the rows that were available all along. The
  query builder adds a \<open>LIMIT\<close> clause only for a count that is not negative: with a
  negative count every available row of the product is returned.
\<close>

definition resetExpired :: "ident \<Rightarrow> time \<Rightarrow> db \<Rightarrow> db" where
  "resetExpired pid t s =
     s\<lparr>productItems :=
        map (\<lambda>i. if i_productId i = pid \<and> expired t i then release i else i) (productItems s)\<rparr>"

definition availableRows :: "ident \<Rightarrow> time \<Rightarrow> db \<Rightarrow> item_row list" where
  "availableRows pid t s =
     filter (\<lambda>i. i_productId i = pid \<and> i_status i = Available) (productItems s) @
     map release (filter (\<lambda>i. i_productId i = pid \<and> expired t i) (productItems s))"

definition getAvailableProductItems ::
  "ident \<Rightarrow> int \<Rightarrow> time \<Rightarrow> db \<Rightarrow> item_row list \<times> db" where
  "getAvailableProductItems pid count t s =
     (let rows = availableRows pid t s
      in (if count < 0 then rows else take (nat count) rows, resetExpired pid t s))"

text \<open>
  \<open>updateProductItemStatus\<close> clears \<open>reservedUntil\<close> for "sold" and "available" and
  leaves it as it is for "reserved".
\<close>

definition updateProductItemStatus :: "ident \<Rightarrow> item_status \<Rightarrow> db \<Rightarrow> db" where
  "updateProductItemStatus iid st s =
     s\<lparr>productItems :=
        map (\<lambda>i. if i_id i = iid
                 then i\<lparr>i_status := st,
                        reservedUntil := (if st = Sold \<or> st = Available then None
                                          else reservedUntil i)\<rparr>
                 else i) (productItems s)\<rparr>"

definition reserveProductItem :: "ident \<Rightarrow> time \<Rightarrow> db \<Rightarrow> db" where
  "reserveProductItem iid until s =
     s\<lparr>productItems :=
        map (\<lambda>i. if i_id i = iid then i\<lparr>i_status := Reserved, reservedUntil := Some until\<rparr>
                 else i) (productItems s)\<rparr>"

subsection \<open>Orders\<close>

definition stale :: "time \<Rightarrow> order_row \<Rightarrow> bool" where
  "stale t ord \<longleftrightarrow>
     o_status ord = PendingPayment \<and>
     (case o_createdAt ord of None \<Rightarrow> False | Some c \<Rightarrow> c < t - minutes30)"

definition setOrderStatus :: "ident \<Rightarrow> order_status \<Rightarrow> order_row list \<Rightarrow> order_row list" where
  "setOrderStatus oid st os = map (\<lambda>x. if o_id x = oid then x\<lparr>o_status := st\<rparr> else x) os"

text \<open>One turn of the loop of \<open>cancelExpiredPendingOrders\<close>.\<close>

definition cancelOne :: "db \<Rightarrow> order_row \<Rightarrow> db" where
  "cancelOne s ord =
     (let s1 = (case productItemId ord of
                  None \<Rightarrow> s
                | Some iid \<Rightarrow>
                    s\<lparr>productItems :=
                       map (\<lambda>i. if i_id i = iid then release i else i) (productItems s)\<rparr>)
      in s1\<lparr>orders := setOrderStatus (o_id ord) Cancelled (orders s1)\<rparr>)"

definition cancelExpiredPendingOrders :: "time \<Rightarrow> db \<Rightarrow> nat \<times> db" where
  "cancelExpiredPendingOrders t s =
     (let expiredOrders = filter (stale t) (orders s)
      in (length expiredOrders, foldl cancelOne s expiredOrders))"

definition updateOrderStatus :: "ident \<Rightarrow> order_status \<Rightarrow> db \<Rightarrow> db" where
  "updateOrderStatus oid st s = s\<lparr>orders := setOrderStatus oid st (orders s)\<rparr>"

definition updateOrderDeliveredContent :: "ident \<Rightarrow> string \<Rightarrow> db \<Rightarrow> db" where
  "updateOrderDeliveredContent oid c s =
     s\<lparr>orders := map (\<lambda>x. if o_id x = oid then x\<lparr>deliveredContent := Some c\<rparr> else x) (orders s)\<rparr>"

text \<open>
  \<open>createOrder\<close> inserts one row. The insert is rejected, and the call throws, when the
  primary key or the unique \<open>order_code\<close> is taken or the buyer row is missing.
\<close>

definition createOrder ::
  "env \<Rightarrow> ident \<Rightarrow> ident \<Rightarrow> ident \<Rightarrow> ident option \<Rightarrow> int \<Rightarrow> money \<Rightarrow> payment_method \<Rightarrow>
     order_status \<Rightarrow> db \<Rightarrow> (order_row \<times> db) option" where
  "createOrder e buyer seller pid iid qty price pm st s =
     (let ord = \<lparr>o_id = newOrderId e, orderCode = newOrderCode e, buyerId = buyer,
                 o_sellerId = seller, o_productId = pid, productItemId = iid, quantity = qty,
                 o_price = price, paymentMethod = pm, o_status = st, deliveredContent = None,
                 o_createdAt = Some (now e)\<rparr>
      in if (\<exists>x \<in> set (orders s). o_id x = o_id ord \<or> orderCode x = orderCode ord)
            \<or> \<not> (\<exists>u \<in> set (users s). u_id u = buyer)
         then None
         else Some (ord, s\<lparr>orders := orders s @ [ord]\<rparr>))"

text \<open>
  \<open>getOrderWithDetails\<close>: the order joined with its product and its buyer, and the bound
  item when there is one.
\<close>

definition getOrderWithDetails ::
  "ident \<Rightarrow> db \<Rightarrow> (order_row \<times> product_row \<times> item_row option) option" where
  "getOrderWithDetails oid s =
     (case find (\<lambda>x. o_id x = oid \<and> (\<exists>p \<in> set (products s). p_id p = o_productId x)
                        \<and> (\<exists>u \<in> set (users s). u_id u = buyerId x)) (orders s) of
        None \<Rightarrow> None
      | Some ord \<Rightarrow>
          (case find (\<lambda>p. p_id p = o_productId ord) (products s) of
             None \<Rightarrow> None
           | Some product \<Rightarrow>
               Some (ord, product,
                 (case productItemId ord of
                    None \<Rightarrow> None
                  | Some iid \<Rightarrow> find (\<lambda>i. i_id i = iid) (productItems s)))))"

subsection \<open>Wallet transactions, referrals, pending earnings\<close>

definition createWalletTransaction :: "transaction_row \<Rightarrow> db \<Rightarrow> db" where
  "createWalletTransaction tx s = s\<lparr>walletTransactions := walletTransactions s @ [tx]\<rparr>"

definition getReferralByReferredId :: "ident \<Rightarrow> db \<Rightarrow> referral_row option" where
  "getReferralByReferredId uid s = find (\<lambda>r. referredId r = uid) (referrals s)"

definition updateReferralEarnings :: "ident \<Rightarrow> money \<Rightarrow> db \<Rightarrow> db" where
  "updateReferralEarnings rid amount s =
     s\<lparr>referrals :=
        map (\<lambda>r. if r_id r = rid then r\<lparr>totalEarned := totalEarned r + amount\<rparr> else r)
          (referrals s)\<rparr>"

definition updateReferrerTotalEarnings :: "ident \<Rightarrow> money \<Rightarrow> db \<Rightarrow> db" where
  "updateReferrerTotalEarnings uid amount s =
     s\<lparr>userReferralCodes :=
        map (\<lambda>c. if c_userId c = uid then c\<lparr>totalEarnings := totalEarnings c + amount\<rparr> else c)
          (userReferralCodes s)\<rparr>"

text \<open>
  \<open>createPendingEarning\<close> inserts one row; the insert is rejected when the primary key
  is taken or the seller or the order row is missing.
\<close>

definition createPendingEarning ::
  "env \<Rightarrow> ident \<Rightarrow> ident \<Rightarrow> money \<Rightarrow> time \<Rightarrow> db \<Rightarrow> db option" where
  "createPendingEarning e seller oid amount due s =
     (if (\<exists>x \<in> set (pendingEarnings s). e_id x = newEarningId e)
         \<or> \<not> (\<exists>u \<in> set (users s). u_id u = seller)
         \<or> \<not> (\<exists>x \<in> set (orders s). o_id x = oid)
      then None
      else Some (s\<lparr>pendingEarnings := pendingEarnings s @
             [\<lparr>e_id = newEarningId e, e_sellerId = seller, e_orderId = oid, e_amount = amount,
               e_status = Pending, releaseAt = due, releasedAt = None\<rparr>]\<rparr>))"

definition getPendingEarningById :: "ident \<Rightarrow> db \<Rightarrow> earning_row option" where
  "getPendingEarningById eid s = find (\<lambda>x. e_id x = eid) (pendingEarnings s)"

definition releasable :: "time \<Rightarrow> earning_row \<Rightarrow> bool" where
  "releasable t x \<longleftrightarrow> e_status x = Pending \<and> releaseAt x \<le> t"

definition getReleasablePendingEarnings :: "time \<Rightarrow> db \<Rightarrow> earning_row list" where
  "getReleasablePendingEarnings t s = sort_key releaseAt (filter (releasable t) (pendingEarnings s))"

text \<open>
  \<open>releasePendingEarning\<close> updates by id alone and returns the first updated row
  (undefined when no row has the id).
\<close>

definition markReleased :: "time \<Rightarrow> earning_row \<Rightarrow> earning_row" where
  "markReleased t x = x\<lparr>e_status := Released, releasedAt := Some t\<rparr>"

definition releasePendingEarning :: "ident \<Rightarrow> time \<Rightarrow> db \<Rightarrow> earning_row option \<times> db" where
  "releasePendingEarning eid t s =
     (map_option (markReleased t) (find (\<lambda>x. e_id x = eid) (pendingEarnings s)),
      s\<lparr>pendingEarnings :=
         map (\<lambda>x. if e_id x = eid then markReleased t x else x) (pendingEarnings s)\<rparr>)"

section \<open>Request handlers and jobs (routes.ts)\<close>

datatype bad_request = NotEnoughStock | InsufficientBalance | InsufficientItems nat

datatype response =
    Created order_row
  | Success
  | CleanupCompleted nat nat
  | NotFound
  | BadRequest bad_request
  | ServerError

fun joinLines :: "string list \<Rightarrow> string" where
  "joinLines [] = []"
| "joinLines [x] = x"
| "joinLines (x # y # ys) = x @ [CHR 0x0A] @ joinLines (y # ys)"

subsection \<open>Commission and referral\<close>

text \<open>
  The platform's rate is the constant \<open>commissionRate = 0.05\<close> of both handlers (named
  \<open>platformRate\<close> here, \<open>commissionRate\<close> being a column of \<open>referrals\<close>). The fee
  \<open>(parseFloat(price) * commissionRate).toFixed(2)\<close> is only logged; the seller's share
  \<open>(parseFloat(price) * (1 - commissionRate)).toFixed(2)\<close> is held as a pending earning.
\<close>

definition platformRate :: double where
  "platformRate = roundDouble 5 100 0"

definition commissionAmount :: "money \<Rightarrow> money" where
  "commissionAmount price = toFixed2 (fmul (parseFloat price) platformRate)"

definition sellerAmount :: "money \<Rightarrow> money" where
  "sellerAmount price =
     toFixed2 (fmul (parseFloat price) (fsub (ofInteger 1) platformRate))"

text \<open>
  The release date is \<open>new Date()\<close> after \<open>setDate(getDate() + 3)\<close>: the date moves
  three days on in the server's local time with the time of day kept, and the result is
  read back as an instant with the offset in force then. It is 72 hours after the request
  when the offset is the same at both ends.
\<close>

definition releaseDate :: "env \<Rightarrow> time" where
  "releaseDate e = now e + localOffset e + days3 - localOffsetAtRelease e"

definition holdEarning :: "env \<Rightarrow> ident \<Rightarrow> ident \<Rightarrow> money \<Rightarrow> db \<Rightarrow> db option" where
  "holdEarning e seller oid price s =
     createPendingEarning e seller oid (sellerAmount price) (releaseDate e) s"

text \<open>
  \<open>rate = parseFloat(referral.commissionRate || "5.00")\<close>, then
  \<open>referralCommissionRate = isNaN(rate) ? 0.05 : rate / 100\<close>, then
  \<open>(parseFloat(price) * referralCommissionRate).toFixed(2)\<close>.
\<close>

definition referralCommissionRate :: "stored_rate \<Rightarrow> double" where
  "referralCommissionRate rate =
     (case rate of
        RateUnset \<Rightarrow> fdiv (parseFloat 500) (ofInteger 100)
      | RateInvalid \<Rightarrow> roundDouble 5 100 0
      | RatePercent p \<Rightarrow> fdiv (parseFloat p) (ofInteger 100))"

definition referralCommission :: "stored_rate \<Rightarrow> money \<Rightarrow> money" where
  "referralCommission rate price =
     toFixed2 (fmul (parseFloat price) (referralCommissionRate rate))"

text \<open>The referral block, the same in both handlers; its \<open>catch\<close> only logs.\<close>

definition payReferral :: "ident \<Rightarrow> money \<Rightarrow> ident \<Rightarrow> db \<Rightarrow> db" where
  "payReferral buyer price oid s =
     (case getReferralByReferredId buyer s of
        None \<Rightarrow> s
      | Some r \<Rightarrow>
          if \<not> isActive r then s
          else let c = referralCommission (commissionRate r) price in
            if 0 < c then
              (case getUser (referrerId r) s of
                 None \<Rightarrow> s
               | Some referrer \<Rightarrow>
                   let s1 = creditUserWallet (referrerId r) c s;
                       s2 = createWalletTransaction
                              \<lparr>t_userId = referrerId r, t_type = Credit, t_amount = c,
                               t_reason = ReferralCommission, relatedOrderId = Some oid\<rparr> s1;
                       s3 = updateReferralEarnings (r_id r) c s2
                   in updateReferrerTotalEarnings (referrerId r) c s3)
            else s)"

subsection \<open>POST /api/orders\<close>

text \<open>
  The body's \<open>quantity\<close> is not validated; the model takes it to be an integer.
  A thrown error ends the handler in its \<open>catch\<close> with status 500, and the store keeps
  every write made before the throw: no call runs inside a database transaction.
\<close>

definition markSold :: "db \<Rightarrow> item_row list \<Rightarrow> db" where
  "markSold s items = foldl (\<lambda>s1 item. updateProductItemStatus (i_id item) Sold s1) s items"

definition walletBranch ::
  "env \<Rightarrow> ident \<Rightarrow> product_row \<Rightarrow> int \<Rightarrow> money \<Rightarrow> db \<Rightarrow> response \<times> db" where
  "walletBranch e userId product qty totalPrice s =
     (case getUser userId s of
        None \<Rightarrow> (BadRequest InsufficientBalance, s)
      | Some buyer \<Rightarrow>
          if walletBalance buyer < totalPrice then (BadRequest InsufficientBalance, s)
          else
            (case (if p_category product = Account
                   then getAvailableProductItems (p_id product) qty (now e) s
                   else ([], s)) of
               (items, s1) \<Rightarrow>
                 if p_category product = Account \<and> int (length items) < qty
                 then (BadRequest (InsufficientItems (length items)), s1)
                 else
                   let s2 = markSold s1 items;
                       delivered = joinLines (map content items);
                       soldItemIds = map i_id items;
                       newBuyerBalance = walletBalance buyer - totalPrice;
                       s3 = updateUserBalance userId newBuyerBalance s2;
                       s4 = createWalletTransaction
                              \<lparr>t_userId = userId, t_type = Debit, t_amount = totalPrice,
                               t_reason = Purchase, relatedOrderId = None\<rparr> s3
                   in (case createOrder e userId (p_sellerId product) (p_id product)
                              (case soldItemIds of [] \<Rightarrow> None | x # _ \<Rightarrow> Some x)
                              qty totalPrice Wallet Paid s4 of
                         None \<Rightarrow> (ServerError, s4)
                       | Some (ord, s5) \<Rightarrow>
                           let s6 = (if delivered \<noteq> []
                                     then updateOrderDeliveredContent (o_id ord) delivered s5
                                     else s5);
                               s7 = (if p_category product = Account
                                     then updateProductStock (p_id product) (stock product - qty) s6
                                     else s6)
                           in (case holdEarning e (p_sellerId product) (o_id ord) totalPrice s7 of
                                 None \<Rightarrow> (ServerError, s7)
                               | Some s8 \<Rightarrow>
                                   (Created ord, payReferral userId totalPrice (o_id ord) s8)))))"

definition reserveOne :: "env \<Rightarrow> product_row \<Rightarrow> db \<Rightarrow> ident option \<times> db" where
  "reserveOne e product s =
     (if p_category product = Account
      then (case getAvailableProductItem (p_id product) s of
              None \<Rightarrow> (None, s)
            | Some item \<Rightarrow>
                (Some (i_id item), reserveProductItem (i_id item) (now e + minutes30) s))
      else (None, s))"

definition postOrders ::
  "env \<Rightarrow> ident \<Rightarrow> ident \<Rightarrow> int \<Rightarrow> payment_method \<Rightarrow> db \<Rightarrow> response \<times> db" where
  "postOrders e userId productId qty pm s =
     (case getProductWithSeller productId s of
        None \<Rightarrow> (NotFound, s)
      | Some product \<Rightarrow>
          if p_category product = Account \<and> stock product < qty
          then (BadRequest NotEnoughStock, s)
          else
            (case reserveOne e product s of
               (itemId, s1) \<Rightarrow>
                 let totalPrice = p_price product * qty in
                 if pm = Wallet then walletBranch e userId product qty totalPrice s1
                 else
                   (case createOrder e userId (p_sellerId product) productId itemId qty
                           totalPrice pm PendingPayment s1 of
                      None \<Rightarrow> (ServerError, s1)
                    | Some (ord, s2) \<Rightarrow> (Created ord, s2))))"

subsection \<open>POST /api/admin/orders/:id/confirm and /cancel\<close>

definition adminConfirmOrder :: "env \<Rightarrow> ident \<Rightarrow> db \<Rightarrow> response \<times> db" where
  "adminConfirmOrder e oid s =
     (case getOrderWithDetails oid s of
        None \<Rightarrow> (NotFound, s)
      | Some (ord, product, productItem) \<Rightarrow>
          let s1 = updateOrderStatus oid Paid s;
              s2 = (case (productItemId ord, productItem) of
                      (Some iid, Some item) \<Rightarrow>
                        updateOrderDeliveredContent oid (content item)
                          (updateProductItemStatus iid Sold s1)
                    | _ \<Rightarrow> s1);
              s3 = (if p_category product = Account
                    then updateProductStock (o_productId ord) (stock product - quantity ord) s2
                    else s2)
          in (case holdEarning e (o_sellerId ord) (o_id ord) (o_price ord) s3 of
                None \<Rightarrow> (ServerError, s3)
              | Some s4 \<Rightarrow> (Success, payReferral (buyerId ord) (o_price ord) (o_id ord) s4)))"

definition adminCancelOrder :: "ident \<Rightarrow> db \<Rightarrow> response \<times> db" where
  "adminCancelOrder oid s =
     (case getOrderWithDetails oid s of
        None \<Rightarrow> (NotFound, s)
      | Some (ord, product, productItem) \<Rightarrow>
          let s1 = updateOrderStatus oid Cancelled s
          in (Success,
              (case productItemId ord of
                 None \<Rightarrow> s1
               | Some iid \<Rightarrow> updateProductItemStatus iid Available s1)))"

subsection \<open>PATCH /api/admin/users/:id\<close>

text \<open>Of the body's fields the model keeps \<open>walletBalance\<close>, absent or given.\<close>

definition adminPatchUser :: "ident \<Rightarrow> money option \<Rightarrow> db \<Rightarrow> response \<times> db" where
  "adminPatchUser uid balance s = (Success, updateUser uid balance s)"

subsection \<open>Releasing pending earnings\<close>

text \<open>The credit both release paths make once \<open>releasePendingEarning\<close> has returned.\<close>

definition creditSeller :: "earning_row \<Rightarrow> reason \<Rightarrow> db \<Rightarrow> db" where
  "creditSeller released why s =
     (case getUser (e_sellerId released) s of
        None \<Rightarrow> s
      | Some seller \<Rightarrow>
          createWalletTransaction
            \<lparr>t_userId = e_sellerId released, t_type = Credit, t_amount = e_amount released,
             t_reason = why, relatedOrderId = Some (e_orderId released)\<rparr>
            (updateUserBalance (e_sellerId released)
               (walletBalance seller + e_amount released) s))"

definition adminReleaseEarning :: "time \<Rightarrow> ident \<Rightarrow> db \<Rightarrow> response \<times> db" where
  "adminReleaseEarning t eid s =
     (case getPendingEarningById eid s of
        None \<Rightarrow> (NotFound, s)
      | Some earning \<Rightarrow>
          if e_status earning \<noteq> Pending then (NotFound, s)
          else
            (case releasePendingEarning eid t s of
               (None, s1) \<Rightarrow> (ServerError, s1)
             | (Some released, s1) \<Rightarrow> (Success, creditSeller released SaleReleased s1)))"

text \<open>One turn of the loop of the auto-release job; its \<open>catch\<close> only logs.\<close>

definition releaseOne :: "time \<Rightarrow> db \<Rightarrow> earning_row \<Rightarrow> db" where
  "releaseOne t s earning =
     (case releasePendingEarning (e_id earning) t s of
        (None, s1) \<Rightarrow> s1
      | (Some released, s1) \<Rightarrow> creditSeller released SaleReleasedAuto s1)"

definition releasePendingEarnings :: "time \<Rightarrow> db \<Rightarrow> db" where
  "releasePendingEarnings t s = foldl (releaseOne t) s (getReleasablePendingEarnings t s)"

subsection \<open>POST /api/admin/cleanup\<close>

definition adminCleanup :: "time \<Rightarrow> db \<Rightarrow> response \<times> db" where
  "adminCleanup t s =
     (case cleanupExpiredReservations t s of
        (releasedItems, s1) \<Rightarrow>
          (case cancelExpiredPendingOrders t s1 of
             (cancelledOrders, s2) \<Rightarrow> (CleanupCompleted releasedItems cancelledOrders, s2)))"

section \<open>The wallet path in closed form\<close>




section \<open>The ledger as the specification reads it\<close>

text \<open>
  The signed sum of an account's wallet transactions, credits counted positive and debits
  negative. The code never computes it; it is what the denormalised balance is compared
  with.
\<close>

definition signedSum :: "ident \<Rightarrow> db \<Rightarrow> money" where
  "signedSum uid s =
     sum_list (map (\<lambda>tx. if t_type tx = Credit then t_amount tx else - t_amount tx)
       (filter (\<lambda>tx. t_userId tx = uid) (walletTransactions s)))"

text \<open>
  \<open>balanceOf\<close> reads the denormalised balance of an account. \<open>dueTotal t u\<close> is what
  the seller \<open>u\<close> is owed by the earnings the release job selects at time \<open>t\<close>, and
  \<open>dueOthers t x\<close> the same for the seller of \<open>x\<close> with the earning \<open>x\<close> left out.
\<close>

definition balanceOf :: "ident \<Rightarrow> db \<Rightarrow> money option" where
  "balanceOf uid s = map_option walletBalance (getUser uid s)"



text \<open>
  The ledger entry a release writes for an earning, and the earnings the release job
  credits at time \<open>t\<close>: the ones it selects whose seller account exists.
\<close>

definition releaseEntry :: "reason \<Rightarrow> earning_row \<Rightarrow> transaction_row" where
  "releaseEntry why x =
     \<lparr>t_userId = e_sellerId x, t_type = Credit, t_amount = e_amount x, t_reason = why,
      relatedOrderId = Some (e_orderId x)\<rparr>"


text \<open>Which rows of the item table are sold, in table order.\<close>

definition soldFlags :: "db \<Rightarrow> bool list" where
  "soldFlags s = map (\<lambda>i. i_status i = Sold) (productItems s)"



section \<open>Example stores\<close>

text \<open>
  A buyer with 500,000.00 who was referred by a friend at 5.00 percent, and a seller
  listing one account product at 100,000.00 with two units. The server of the examples
  keeps local time seven hours ahead of UTC all year.
\<close>

definition shop :: db where
  "shop = \<lparr>users = [\<lparr>u_id = ''buyer'', walletBalance = 50000000\<rparr>,
                    \<lparr>u_id = ''seller'', walletBalance = 0\<rparr>,
                    \<lparr>u_id = ''friend'', walletBalance = 0\<rparr>],
           products = [\<lparr>p_id = ''p1'', p_sellerId = ''seller'', p_category = Account,
                        p_price = 10000000, stock = 2\<rparr>],
           productItems = [\<lparr>i_id = ''i1'', i_productId = ''p1'', content = ''a1'',
                             i_status = Available, reservedUntil = None\<rparr>,
                           \<lparr>i_id = ''i2'', i_productId = ''p1'', content = ''a2'',
                             i_status = Available, reservedUntil = None\<rparr>],
           orders = [], walletTransactions = [], pendingEarnings = [],
           referrals = [\<lparr>r_id = ''r1'', referrerId = ''friend'', referredId = ''buyer'',
                          commissionRate = RatePercent 500, totalEarned = 0, isActive = True\<rparr>],
           userReferralCodes = [\<lparr>c_userId = ''friend'', totalEarnings = 0\<rparr>]\<rparr>"

definition env1 :: env where
  "env1 = \<lparr>now = 1000, newOrderId = ''o1'', newOrderCode = ''DH-1'', newEarningId = ''e1'',
            localOffset = 25200000, localOffsetAtRelease = 25200000\<rparr>"

text \<open>
  The store after the buyer placed a QR order at time 1000: unit \<open>i1\<close> is reserved until
  1801000 and bound to the order, which awaits payment.
\<close>

definition waiting :: db where
  "waiting = shop
     \<lparr>productItems := [\<lparr>i_id = ''i1'', i_productId = ''p1'', content = ''a1'',
                         i_status = Reserved, reservedUntil = Some 1801000\<rparr>,
                       \<lparr>i_id = ''i2'', i_productId = ''p1'', content = ''a2'',
                         i_status = Available, reservedUntil = None\<rparr>],
      orders := [\<lparr>o_id = ''o1'', orderCode = ''DH-1'', buyerId = ''buyer'',
                  o_sellerId = ''seller'', o_productId = ''p1'', productItemId = Some ''i1'',
                  quantity = 1, o_price = 10000000, paymentMethod = Qr,
                  o_status = PendingPayment, deliveredContent = None,
                  o_createdAt = Some 1000\<rparr>]\<rparr>"

text \<open>A store whose only unit holds a reservation that ran out at 1801000.\<close>

definition lapsed :: db where
  "lapsed = shop
     \<lparr>productItems := [\<lparr>i_id = ''i1'', i_productId = ''p1'', content = ''a1'',
                         i_status = Reserved, reservedUntil = Some 1801000\<rparr>]\<rparr>"

definition env2 :: env where
  "env2 = \<lparr>now = 1861000, newOrderId = ''o2'', newOrderCode = ''DH-2'', newEarningId = ''e2'',
            localOffset = 25200000, localOffsetAtRelease = 25200000\<rparr>"







section \<open>Auxiliary facts\<close>

lemmas storage_defs =
  getUser_def updateUserBalance_def updateUser_def creditUserWallet_def getProductWithSeller_def
  updateProductStock_def getAvailableProductItem_def resetExpired_def availableRows_def
  getAvailableProductItems_def updateProductItemStatus_def reserveProductItem_def
  updateOrderStatus_def setOrderStatus_def updateOrderDeliveredContent_def createOrder_def
  getOrderWithDetails_def createWalletTransaction_def getReferralByReferredId_def
  updateReferralEarnings_def updateReferrerTotalEarnings_def createPendingEarning_def
  getPendingEarningById_def getReleasablePendingEarnings_def releasePendingEarning_def
  markReleased_def expired_def release_def releasable_def

lemmas handler_defs =
  markSold_def walletBranch_def reserveOne_def postOrders_def adminConfirmOrder_def
  adminCancelOrder_def adminPatchUser_def creditSeller_def adminReleaseEarning_def
  releaseOne_def releasePendingEarnings_def holdEarning_def releaseDate_def
  payReferral_def minutes30_def days3_def Let_def

lemmas double_defs =
  width.simps roundNearestEven_def roundPos_def roundDouble_def parseFloat_def ofInteger_def
  fmul_def fsub_def fdiv_def toFixed2_def platformRate_def commissionAmount_def
  sellerAmount_def referralCommissionRate_def referralCommission_def Let_def


lemma sellerAmount_shop: "sellerAmount 10000000 = 9500000"
  by (simp add: double_defs)

lemma sellerAmount_refund: "sellerAmount (- 10000000) = - 9500000"
  by (simp add: double_defs)

lemma sellerAmount_dime: "sellerAmount 30 = 28"
  by (simp add: double_defs)

lemma sellerAmount_penny: "sellerAmount 1 = 1"
  by (simp add: double_defs)


lemma referralCommission_shop: "referralCommission (RatePercent 500) 10000000 = 500000"
  by (simp add: double_defs)

lemma referralCommission_refund: "referralCommission (RatePercent 500) (- 10000000) = - 500000"
  by (simp add: double_defs)

lemma referralCommission_dime: "referralCommission (RatePercent 500) 30 = 1"
  by (simp add: double_defs)

lemma referralCommission_penny: "referralCommission (RatePercent 500) 1 = 0"
  by (simp add: double_defs)

lemmas amounts =
  sellerAmount_shop sellerAmount_refund sellerAmount_dime sellerAmount_penny
  referralCommission_shop referralCommission_refund referralCommission_dime
  referralCommission_penny


section \<open>Rounding errors\<close>

text \<open>
  Every operation on doubles is exact up to the relative error \<open>2 ^ -53\<close>, and
  \<open>toFixed(2)\<close> is exact up to half a hundredth. It follows that the seller's share and
  the referral commission are a hundredth nearest to the exact percentage, for amounts up
  to \<open>10 ^ 13\<close> hundredths.
\<close>

lemma width_bounds:
  "0 < n \<Longrightarrow> 1 \<le> width n \<and> 2 ^ nat (width n - 1) \<le> n \<and> n < 2 ^ nat (width n)"
proof (induction n rule: width.induct)
  case (1 n)
  show ?case
  proof (cases "n div 2 = 0")
    case True
    with 1 have "n = 1" by presburger
    then show ?thesis by (simp add: width.simps)
  next
    case False
    with 1 have pos: "0 < n div 2" by presburger
    from 1 have n0: "\<not> n \<le> 0" by simp
    from 1(1) [OF n0 pos]
    have w: "1 \<le> width (n div 2)" and lo: "2 ^ nat (width (n div 2) - 1) \<le> n div 2"
      and hi: "n div 2 < 2 ^ nat (width (n div 2))"
      by simp_all
    have wn: "width n = 1 + width (n div 2)"
      using n0 by (simp add: width.simps [of n])
    define j where "j = nat (width (n div 2) - 1)"
    have wj: "width (n div 2) = int j + 1"
      using w by (simp add: j_def)
    have lo': "2 ^ j \<le> n div 2" and hi': "n div 2 < 2 * 2 ^ j"
      using lo hi by (simp_all add: wj j_def [symmetric] nat_add_distrib)
    have e1: "nat (width n - 1) = Suc j" and e2: "nat (width n) = Suc (Suc j)"
      by (simp_all add: wn wj nat_add_distrib)
    have "2 * (n div 2) \<le> n" and "n < 2 * (n div 2) + 2"
      by presburger+
    with lo' hi' have "2 ^ Suc j \<le> n" and "n < 2 ^ Suc (Suc j)"
      by simp_all
    then show ?thesis
      using w wn unfolding e1 e2 by simp
  qed
qed

lemma rne_bound:
  assumes "0 < d"
  shows "\<bar>2 * (d * roundNearestEven n d - n)\<bar> \<le> d"
proof -
  define q where "q = n div d"
  define r where "r = n mod d"
  have n: "n = d * q + r" by (simp add: q_def r_def)
  have r: "0 \<le> r" "r < d" using assms by (simp_all add: r_def)
  show ?thesis
  proof (cases "d < 2 * r \<or> (2 * r = d \<and> odd q)")
    case True
    then have "roundNearestEven n d = q + 1"
      by (simp add: roundNearestEven_def Let_def q_def r_def)
    with True r show ?thesis
      by (auto simp: n algebra_simps)
  next
    case False
    then have "roundNearestEven n d = q"
      by (simp add: roundNearestEven_def Let_def q_def r_def)
    with False r show ?thesis
      by (auto simp: n algebra_simps)
  qed
qed

lemma rne_real:
  assumes "0 < d"
  shows "\<bar>real_of_int (roundNearestEven n d) - real_of_int n / real_of_int d\<bar> \<le> 1 / 2"
proof -
  define m where "m = roundNearestEven n d"
  have "- d \<le> 2 * (d * m - n)" and "2 * (d * m - n) \<le> d"
    using rne_bound [OF assms, of n] unfolding m_def by (simp_all add: abs_le_iff)
  then have "real_of_int (- d) \<le> real_of_int (2 * (d * m - n))"
    and "real_of_int (2 * (d * m - n)) \<le> real_of_int d"
    by (simp_all only: of_int_le_iff)
  then have a: "- real_of_int d \<le> 2 * (real_of_int d * real_of_int m - real_of_int n)"
    and b: "2 * (real_of_int d * real_of_int m - real_of_int n) \<le> real_of_int d"
    by simp_all
  have pos: "0 < real_of_int d" using assms by simp
  define z where "z = (real_of_int d * real_of_int m - real_of_int n) / real_of_int d"
  have e: "real_of_int m - real_of_int n / real_of_int d = z"
    using pos by (simp add: z_def field_simps)
  have "z \<le> 1 / 2"
    unfolding z_def using pos b by (simp add: pos_divide_le_eq)
  moreover have "- (1 / 2) \<le> z"
    unfolding z_def using pos a by (simp add: pos_le_divide_eq)
  ultimately have "\<bar>z\<bar> \<le> 1 / 2"
    by linarith
  then show ?thesis
    unfolding m_def [symmetric] e .
qed

lemma near_scaled:
  assumes r: "2 ^ 52 \<le> r" and m: "\<bar>real_of_int m - r\<bar> \<le> 1 / 2" and T: "0 < T"
  shows "near (1 / 2 ^ 53) (real_of_int m * T) (r * T)"
proof -
  have "\<bar>real_of_int m * T - r * T\<bar> = \<bar>real_of_int m - r\<bar> * T"
    using T by (simp add: left_diff_distrib [symmetric] abs_mult)
  also have "\<dots> \<le> 1 / 2 * T"
    using m T by (intro mult_right_mono) simp_all
  also have "\<dots> \<le> (1 / 2 ^ 53 * r) * T"
    using r T by (intro mult_right_mono) simp_all
  finally have "\<bar>real_of_int m * T - r * T\<bar> \<le> 1 / 2 ^ 53 * (r * T)"
    by simp
  moreover have "\<bar>r * T\<bar> = r * T"
    using r T by simp
  ultimately show ?thesis
    by (simp add: near_def)
qed

lemma powi_nat: "0 \<le> k \<Longrightarrow> (2::real) powi k = 2 ^ nat k"
  by (simp add: power_int_def)

lemma powi_neg_nat: "k \<le> 0 \<Longrightarrow> (2::real) powi k = 1 / 2 ^ nat (- k)"
  by (cases "k = 0") (simp_all add: power_int_def inverse_eq_divide power_divide)

lemma roundPos_near:
  assumes p: "0 < p" and q: "0 < q"
  shows "near (1 / 2 ^ 53) (valueOf (roundPos p q s))
           (real_of_int p / real_of_int q * 2 powi s)"
proof -
  define k where "k = width p - width q - 53"
  define n where "n = (if k < 0 then p * 2 ^ nat (- k) else p)"
  define d where "d = (if k < 0 then q else q * 2 ^ nat k)"
  define r where "r = real_of_int n / real_of_int d"
  have npos: "0 < n" and dpos: "0 < d"
    using p q by (simp_all add: n_def d_def)
  note wp = width_bounds [OF p] and wq = width_bounds [OF q]
  have ratio: "r = real_of_int p / real_of_int q * 2 powi (- k)"
  proof (cases "k < 0")
    case True
    then show ?thesis
      by (simp add: r_def n_def d_def powi_nat)
  next
    case False
    then show ?thesis
      by (simp add: r_def n_def d_def powi_neg_nat)
  qed
  have plo: "(2::real) powi (width p - 1) \<le> real_of_int p"
  proof -
    have "real_of_int (2 ^ nat (width p - 1)) \<le> real_of_int p"
      using wp by (simp only: of_int_le_iff)
    then show ?thesis
      using wp by (simp add: powi_nat)
  qed
  have qhi: "real_of_int q \<le> 2 powi (width q)"
  proof -
    have "real_of_int q \<le> real_of_int (2 ^ nat (width q))"
      using wq by (simp only: of_int_le_iff) simp
    then show ?thesis
      using wq by (simp add: powi_nat)
  qed
  have "(2::real) powi 52 = 2 powi (width p - 1) / 2 powi (width q) * 2 powi (- k)"
    by (simp add: k_def power_int_diff [symmetric] power_int_add [symmetric])
  also have "\<dots> \<le> real_of_int p / real_of_int q * 2 powi (- k)"
  proof (intro mult_right_mono frac_le)
    show "0 \<le> (2::real) powi (- k)" by simp
    show "0 \<le> real_of_int p" using p by simp
    show "(2::real) powi (width p - 1) \<le> real_of_int p" by (rule plo)
    show "0 < real_of_int q" using q by simp
    show "real_of_int q \<le> 2 powi (width q)" by (rule qhi)
  qed
  finally have r52: "2 ^ 52 \<le> r"
    by (simp add: ratio)
  define T where "T = (2::real) powi (k + s)"
  have T: "0 < T" by (simp add: T_def)
  have X: "real_of_int p / real_of_int q * 2 powi s = r * T"
    by (simp add: ratio T_def power_int_add [symmetric])
  show ?thesis
  proof (cases "n < d * 2 ^ 53")
    case True
    then have res: "roundPos p q s = (roundNearestEven n d, k + s)"
      by (simp add: roundPos_def Let_def k_def [symmetric] n_def [symmetric] d_def [symmetric])
    have "\<bar>real_of_int (roundNearestEven n d) - r\<bar> \<le> 1 / 2"
      unfolding r_def by (rule rne_real [OF dpos])
    then show ?thesis
      unfolding res valueOf_def fst_conv snd_conv X T_def [symmetric]
      by (rule near_scaled [OF r52 _ T])
  next
    case False
    then have res: "roundPos p q s = (roundNearestEven n (2 * d), k + 1 + s)"
      by (simp add: roundPos_def Let_def k_def [symmetric] n_def [symmetric] d_def [symmetric])
    have "real_of_int (d * 2 ^ 53) \<le> real_of_int n"
      using False by (simp only: of_int_le_iff)
    then have r53: "2 ^ 52 \<le> r / 2"
      using dpos by (simp add: r_def field_simps)
    have "\<bar>real_of_int (roundNearestEven n (2 * d)) - real_of_int n / real_of_int (2 * d)\<bar> \<le> 1 / 2"
      using dpos by (intro rne_real) simp
    moreover have "real_of_int n / real_of_int (2 * d) = r / 2"
      by (simp add: r_def)
    ultimately have m: "\<bar>real_of_int (roundNearestEven n (2 * d)) - r / 2\<bar> \<le> 1 / 2"
      by (simp only:)
    have T2: "0 < 2 * T" using T by simp
    have e: "(2::real) powi (k + 1 + s) = 2 * T"
      by (simp add: T_def power_int_add)
    have X2: "real_of_int p / real_of_int q * 2 powi s = r / 2 * (2 * T)"
      unfolding X by simp
    show ?thesis
      unfolding res valueOf_def fst_conv snd_conv e X2
      by (rule near_scaled [OF r53 m T2])
  qed
qed

lemma near_neg: "near r (- x) (- y) = near r x y"
  by (simp add: near_def abs_minus_commute)

lemma roundDouble_near:
  assumes q: "0 < q"
  shows "near (1 / 2 ^ 53) (valueOf (roundDouble p q s))
           (real_of_int p / real_of_int q * 2 powi s)"
proof -
  consider "p = 0" | "0 < p" | "p < 0" by linarith
  then show ?thesis
  proof cases
    case 1
    then show ?thesis by (simp add: roundDouble_def valueOf_def near_def)
  next
    case 2
    then have e: "roundDouble p q s = roundPos p q s"
      by (simp add: roundDouble_def)
    show ?thesis
      unfolding e by (rule roundPos_near [OF 2 q])
  next
    case 3
    then have np: "0 < - p" by simp
    obtain m e where me: "roundPos (- p) q s = (m, e)" by (cases "roundPos (- p) q s")
    from roundPos_near [OF np q, of s]
    have "near (1 / 2 ^ 53) (real_of_int m * 2 powi e)
           (real_of_int (- p) / real_of_int q * 2 powi s)"
      unfolding me valueOf_def fst_conv snd_conv .
    then have "near (1 / 2 ^ 53) (- (real_of_int m * 2 powi e))
           (- (real_of_int (- p) / real_of_int q * 2 powi s))"
      by (simp only: near_neg)
    moreover have "valueOf (roundDouble p q s) = - (real_of_int m * 2 powi e)"
      using 3 by (simp add: roundDouble_def me valueOf_def)
    moreover have "real_of_int p / real_of_int q * 2 powi s =
        - (real_of_int (- p) / real_of_int q * 2 powi s)"
      by simp
    ultimately show ?thesis
      by (simp only:)
  qed
qed

lemma near_mult:
  assumes a: "near r x y" and b: "near t u v" and r: "0 \<le> r"
  shows "near (r + t + r * t) (x * u) (y * v)"
proof -
  have t: "0 \<le> t * \<bar>v\<bar>"
    using b unfolding near_def by (meson abs_ge_zero order_trans)
  have u: "\<bar>u\<bar> \<le> \<bar>v\<bar> + t * \<bar>v\<bar>"
    using b unfolding near_def by linarith
  have "x * u - y * v = (x - y) * u + y * (u - v)"
    by (simp add: algebra_simps)
  then have "\<bar>x * u - y * v\<bar> \<le> \<bar>x - y\<bar> * \<bar>u\<bar> + \<bar>y\<bar> * \<bar>u - v\<bar>"
    by (metis abs_mult abs_triangle_ineq)
  also have "\<dots> \<le> (r * \<bar>y\<bar>) * (\<bar>v\<bar> + t * \<bar>v\<bar>) + \<bar>y\<bar> * (t * \<bar>v\<bar>)"
    using a b r u unfolding near_def
    by (intro add_mono mult_mono) simp_all
  also have "\<dots> = (r + t + r * t) * \<bar>y * v\<bar>"
    by (simp add: abs_mult algebra_simps)
  finally show ?thesis
    by (simp add: near_def)
qed

lemma near_trans:
  assumes a: "near r x y" and b: "near t y z" and r: "0 \<le> r"
  shows "near (r + t + r * t) x z"
proof -
  have y: "\<bar>y\<bar> \<le> \<bar>z\<bar> + t * \<bar>z\<bar>"
    using b unfolding near_def by linarith
  have "\<bar>x - z\<bar> \<le> \<bar>x - y\<bar> + \<bar>y - z\<bar>"
    by linarith
  also have "\<dots> \<le> r * (\<bar>z\<bar> + t * \<bar>z\<bar>) + t * \<bar>z\<bar>"
  proof (intro add_mono)
    have "\<bar>x - y\<bar> \<le> r * \<bar>y\<bar>" using a by (simp add: near_def)
    also have "\<dots> \<le> r * (\<bar>z\<bar> + t * \<bar>z\<bar>)" using y r by (rule mult_left_mono)
    finally show "\<bar>x - y\<bar> \<le> r * (\<bar>z\<bar> + t * \<bar>z\<bar>)" .
    show "\<bar>y - z\<bar> \<le> t * \<bar>z\<bar>" using b by (simp add: near_def)
  qed
  also have "\<dots> = (r + t + r * t) * \<bar>z\<bar>"
    by (simp add: algebra_simps)
  finally show ?thesis
    by (simp add: near_def)
qed


lemma toFixed2_near: "\<bar>real_of_int (toFixed2 x) - 100 * valueOf x\<bar> \<le> 1 / 2"
proof -
  obtain m e where x: "x = (m, e)" by (cases x)
  define a where "a = \<bar>m\<bar> * 100"
  define c where "c = (if 0 \<le> e then a * 2 ^ nat e
               else (2 * a + 2 ^ nat (- e)) div (2 * 2 ^ nat (- e)))"
  have tf: "toFixed2 x = (if m < 0 then - c else c)"
    by (simp add: toFixed2_def x Let_def a_def c_def)
  have c: "\<bar>real_of_int c - real_of_int a * 2 powi e\<bar> \<le> 1 / 2"
  proof (cases "0 \<le> e")
    case True
    then show ?thesis by (simp add: c_def powi_nat)
  next
    case False
    define D :: int where "D = 2 ^ nat (- e)"
    have D: "0 < D" by (simp add: D_def)
    define qq where "qq = (2 * a + D) div (2 * D)"
    define rr where "rr = (2 * a + D) mod (2 * D)"
    have eq: "2 * a + D = 2 * D * qq + rr" by (simp add: qq_def rr_def)
    have rr: "0 \<le> rr" "rr < 2 * D" using D by (simp_all add: rr_def)
    have cq: "c = qq" using False by (simp add: c_def qq_def D_def)
    have "real_of_int (2 * a + D) = real_of_int (2 * D * qq + rr)"
      using eq by (simp only:)
    then have eqr: "2 * real_of_int a + real_of_int D = 2 * real_of_int D * real_of_int qq + real_of_int rr"
      by simp
    have "real_of_int rr < real_of_int (2 * D)"
      using rr(2) by (simp only: of_int_less_iff)
    then have rrr: "0 \<le> real_of_int rr" "real_of_int rr < 2 * real_of_int D"
      using rr(1) by simp_all
    have Dr: "0 < real_of_int D" using D by simp
    have pw: "(2::real) powi e = 1 / real_of_int D"
      using False by (simp add: powi_neg_nat D_def)
    define z where "z = real_of_int qq - real_of_int a / real_of_int D"
    have "z * (2 * real_of_int D) = 2 * real_of_int D * real_of_int qq - 2 * real_of_int a"
      using Dr by (simp add: z_def field_simps)
    also have "\<dots> = real_of_int D - real_of_int rr"
      using eqr by linarith
    finally have "\<bar>z * (2 * real_of_int D)\<bar> \<le> real_of_int D"
      using rrr by linarith
    then have "\<bar>z\<bar> * (2 * real_of_int D) \<le> 1 / 2 * (2 * real_of_int D)"
      using Dr by (simp add: abs_mult)
    then have "\<bar>z\<bar> \<le> 1 / 2"
      using Dr by (simp only: mult_le_cancel_right)
    then show ?thesis
      by (simp add: cq pw z_def)
  qed
  show ?thesis
  proof (cases "m < 0")
    case True
    then have "100 * valueOf x = - (real_of_int a * 2 powi e)"
      by (simp add: valueOf_def x a_def)
    with True c show ?thesis
      by (simp add: tf abs_minus_commute)
  next
    case False
    then have "100 * valueOf x = real_of_int a * 2 powi e"
      by (simp add: valueOf_def x a_def)
    with False c show ?thesis
      by (simp add: tf)
  qed
qed

lemma near_mono: "near r x y \<Longrightarrow> r \<le> t \<Longrightarrow> near t x y"
proof -
  assume a: "near r x y" and b: "r \<le> t"
  have "r * \<bar>y\<bar> \<le> t * \<bar>y\<bar>"
    using b by (rule mult_right_mono) simp
  with a show ?thesis
    by (simp add: near_def)
qed

lemma parseFloat_near: "near (1 / 2 ^ 53) (valueOf (parseFloat n)) (real_of_int n / 100)"
  using roundDouble_near [of 100 n 0] by (simp add: parseFloat_def)

lemma fmul_near: "near (1 / 2 ^ 53) (valueOf (fmul x y)) (valueOf x * valueOf y)"
proof -
  have "real_of_int (fst x * fst y) / real_of_int 1 * 2 powi (snd x + snd y) =
        valueOf x * valueOf y"
    by (simp add: valueOf_def power_int_add)
  with roundDouble_near [of 1 "fst x * fst y" "snd x + snd y"] show ?thesis
    by (simp only: fmul_def)
qed








text \<open>
  The operations the handlers are written with as integer arithmetic: on amounts up to
  \<open>10 ^ 13\<close> hundredths the doubles give the same.
\<close>

lemma align:
  assumes "e \<le> a"
  shows "real_of_int (m * 2 ^ nat (a - e)) * 2 powi e = real_of_int m * 2 powi a"
proof -
  have "(2::real) powi a = 2 powi (a - e) * 2 powi e"
    by (simp add: power_int_add [symmetric])
  also have "(2::real) powi (a - e) = 2 ^ nat (a - e)"
    using assms by (simp add: powi_nat)
  finally show ?thesis by simp
qed

lemma fsub_near: "near (1 / 2 ^ 53) (valueOf (fsub x y)) (valueOf x - valueOf y)"
proof -
  define e where "e = min (snd x) (snd y)"
  have "real_of_int (fst x * 2 ^ nat (snd x - e) - fst y * 2 ^ nat (snd y - e)) / real_of_int 1
          * 2 powi e =
        real_of_int (fst x * 2 ^ nat (snd x - e)) * 2 powi e -
        real_of_int (fst y * 2 ^ nat (snd y - e)) * 2 powi e"
    by (simp add: left_diff_distrib)
  also have "\<dots> = valueOf x - valueOf y"
    unfolding valueOf_def by (simp only: align e_def min.cobounded1 min.cobounded2)
  finally show ?thesis
    using roundDouble_near [of 1 "fst x * 2 ^ nat (snd x - e) - fst y * 2 ^ nat (snd y - e)" e]
    by (simp add: fsub_def Let_def e_def [symmetric])
qed

lemma fadd_near: "near (1 / 2 ^ 53) (valueOf (fadd x y)) (valueOf x + valueOf y)"
proof -
  define e where "e = min (snd x) (snd y)"
  have "real_of_int (fst x * 2 ^ nat (snd x - e) + fst y * 2 ^ nat (snd y - e)) / real_of_int 1
          * 2 powi e =
        real_of_int (fst x * 2 ^ nat (snd x - e)) * 2 powi e +
        real_of_int (fst y * 2 ^ nat (snd y - e)) * 2 powi e"
    by (simp add: distrib_right)
  also have "\<dots> = valueOf x + valueOf y"
    unfolding valueOf_def by (simp only: align e_def min.cobounded1 min.cobounded2)
  finally show ?thesis
    using roundDouble_near [of 1 "fst x * 2 ^ nat (snd x - e) + fst y * 2 ^ nat (snd y - e)" e]
    by (simp add: fadd_def Let_def e_def [symmetric])
qed

lemma fless_iff: "fless x y \<longleftrightarrow> valueOf x < valueOf y"
proof -
  define e where "e = min (snd x) (snd y)"
  have p: "0 < (2::real) powi e" by simp
  have "fless x y \<longleftrightarrow>
        real_of_int (fst x * 2 ^ nat (snd x - e)) < real_of_int (fst y * 2 ^ nat (snd y - e))"
    by (simp only: fless_def Let_def e_def [symmetric] of_int_less_iff)
  also have "\<dots> \<longleftrightarrow> real_of_int (fst x * 2 ^ nat (snd x - e)) * 2 powi e <
                     real_of_int (fst y * 2 ^ nat (snd y - e)) * 2 powi e"
    using p by (simp only: mult_less_cancel_right_pos)
  also have "\<dots> \<longleftrightarrow> valueOf x < valueOf y"
    unfolding valueOf_def by (simp only: align e_def min.cobounded1 min.cobounded2)
  finally show ?thesis .
qed

lemma parseFloat_abs:
  assumes "\<bar>a\<bar> \<le> 10 ^ 13"
  shows "\<bar>valueOf (parseFloat a) - real_of_int a / 100\<bar> \<le> 10 ^ 11 / 2 ^ 53"
    and "\<bar>real_of_int a / 100\<bar> \<le> 10 ^ 11"
proof -
  have "real_of_int \<bar>a\<bar> \<le> real_of_int (10 ^ 13)"
    using assms by (simp only: of_int_le_iff)
  then show b: "\<bar>real_of_int a / 100\<bar> \<le> 10 ^ 11"
    by simp
  have "\<bar>valueOf (parseFloat a) - real_of_int a / 100\<bar> \<le> 1 / 2 ^ 53 * \<bar>real_of_int a / 100\<bar>"
    using parseFloat_near [of a] by (simp only: near_def)
  also have "\<dots> \<le> 1 / 2 ^ 53 * 10 ^ 11"
    using b by (intro mult_left_mono) simp_all
  finally show "\<bar>valueOf (parseFloat a) - real_of_int a / 100\<bar> \<le> 10 ^ 11 / 2 ^ 53"
    by simp
qed

lemma int_of_near:
  assumes "\<bar>real_of_int c - 100 * v\<bar> \<le> 1 / 2" and "\<bar>100 * v - real_of_int n\<bar> < 1 / 2"
  shows "c = n"
proof -
  have "\<bar>real_of_int c - real_of_int n\<bar> < 1"
    using assms by linarith
  then have "real_of_int \<bar>c - n\<bar> < real_of_int 1"
    by simp
  then have "\<bar>c - n\<bar> < 1"
    by (simp only: of_int_less_iff)
  then show ?thesis by linarith
qed

lemma difference_exact:
  assumes a: "\<bar>a\<bar> \<le> 10 ^ 13" and b: "\<bar>b\<bar> \<le> 10 ^ 13"
  shows "toFixed2 (fsub (parseFloat a) (parseFloat b)) = a - b"
proof (rule int_of_near [OF toFixed2_near])
  define X where "X = valueOf (parseFloat a)"
  define Y where "Y = valueOf (parseFloat b)"
  define S where "S = valueOf (fsub (parseFloat a) (parseFloat b))"
  have s: "\<bar>S - (X - Y)\<bar> \<le> 1 / 9007199254740992 * \<bar>X - Y\<bar>"
    using fsub_near [of "parseFloat a" "parseFloat b"] by (simp add: near_def S_def X_def Y_def)
  have x: "\<bar>X - real_of_int a / 100\<bar> \<le> 100000000000 / 9007199254740992"
    and xa: "\<bar>real_of_int a / 100\<bar> \<le> 100000000000"
    using parseFloat_abs [OF a] by (simp_all add: X_def)
  have y: "\<bar>Y - real_of_int b / 100\<bar> \<le> 100000000000 / 9007199254740992"
    and yb: "\<bar>real_of_int b / 100\<bar> \<le> 100000000000"
    using parseFloat_abs [OF b] by (simp_all add: Y_def)
  define A where "A = real_of_int a / 100"
  define B where "B = real_of_int b / 100"
  note x' = x [folded A_def] and xa' = xa [folded A_def]
    and y' = y [folded B_def] and yb' = yb [folded B_def]
  have xy: "\<bar>X - Y\<bar> \<le> 200000000001"
    using x' xa' y' yb' by linarith
  have "1 / 9007199254740992 * \<bar>X - Y\<bar> \<le> 1 / 9007199254740992 * 200000000001"
    using xy by (intro mult_left_mono) simp_all
  with s have s': "\<bar>S - (X - Y)\<bar> \<le> 200000000001 / 9007199254740992"
    by simp
  have "\<bar>S - (A - B)\<bar> < 1 / 200"
    using s' x' y' by linarith
  then have "\<bar>100 * S - (100 * A - 100 * B)\<bar> < 1 / 2"
    by linarith
  then have "\<bar>100 * S - (real_of_int a - real_of_int b)\<bar> < 1 / 2"
    by (simp add: A_def B_def)
  then show "\<bar>100 * valueOf (fsub (parseFloat a) (parseFloat b)) - real_of_int (a - b)\<bar> < 1 / 2"
    by (simp add: S_def)
qed

lemma sum_exact:
  assumes a: "\<bar>a\<bar> \<le> 10 ^ 13" and b: "\<bar>b\<bar> \<le> 10 ^ 13"
  shows "toFixed2 (fadd (parseFloat a) (parseFloat b)) = a + b"
proof (rule int_of_near [OF toFixed2_near])
  define X where "X = valueOf (parseFloat a)"
  define Y where "Y = valueOf (parseFloat b)"
  define S where "S = valueOf (fadd (parseFloat a) (parseFloat b))"
  have s: "\<bar>S - (X + Y)\<bar> \<le> 1 / 9007199254740992 * \<bar>X + Y\<bar>"
    using fadd_near [of "parseFloat a" "parseFloat b"] by (simp add: near_def S_def X_def Y_def)
  have x: "\<bar>X - real_of_int a / 100\<bar> \<le> 100000000000 / 9007199254740992"
    and xa: "\<bar>real_of_int a / 100\<bar> \<le> 100000000000"
    using parseFloat_abs [OF a] by (simp_all add: X_def)
  have y: "\<bar>Y - real_of_int b / 100\<bar> \<le> 100000000000 / 9007199254740992"
    and yb: "\<bar>real_of_int b / 100\<bar> \<le> 100000000000"
    using parseFloat_abs [OF b] by (simp_all add: Y_def)
  define A where "A = real_of_int a / 100"
  define B where "B = real_of_int b / 100"
  note x' = x [folded A_def] and xa' = xa [folded A_def]
    and y' = y [folded B_def] and yb' = yb [folded B_def]
  have xy: "\<bar>X + Y\<bar> \<le> 200000000001"
    using x' xa' y' yb' by linarith
  have "1 / 9007199254740992 * \<bar>X + Y\<bar> \<le> 1 / 9007199254740992 * 200000000001"
    using xy by (intro mult_left_mono) simp_all
  with s have s': "\<bar>S - (X + Y)\<bar> \<le> 200000000001 / 9007199254740992"
    by simp
  have "\<bar>S - (A + B)\<bar> < 1 / 200"
    using s' x' y' by linarith
  then have "\<bar>100 * S - (100 * A + 100 * B)\<bar> < 1 / 2"
    by linarith
  then have "\<bar>100 * S - (real_of_int a + real_of_int b)\<bar> < 1 / 2"
    by (simp add: A_def B_def)
  then show "\<bar>100 * valueOf (fadd (parseFloat a) (parseFloat b)) - real_of_int (a + b)\<bar> < 1 / 2"
    by (simp add: S_def)
qed

lemma less_exact:
  assumes a: "\<bar>a\<bar> \<le> 10 ^ 13" and b: "\<bar>b\<bar> \<le> 10 ^ 13"
  shows "fless (parseFloat a) (parseFloat b) \<longleftrightarrow> a < b"
proof -
  define X where "X = valueOf (parseFloat a)"
  define Y where "Y = valueOf (parseFloat b)"
  have x: "\<bar>X - real_of_int a / 100\<bar> \<le> 100000000000 / 9007199254740992"
    using parseFloat_abs [OF a] by (simp_all add: X_def)
  have y: "\<bar>Y - real_of_int b / 100\<bar> \<le> 100000000000 / 9007199254740992"
    using parseFloat_abs [OF b] by (simp_all add: Y_def)
  consider "a < b" | "a = b" | "b < a" by linarith
  then have "X < Y \<longleftrightarrow> a < b"
  proof cases
    case 1
    then have "real_of_int a + 1 \<le> real_of_int b"
      by linarith
    with x y have "X < Y" by linarith
    with 1 show ?thesis by simp
  next
    case 2
    then show ?thesis by (simp add: X_def Y_def)
  next
    case 3
    then have "real_of_int b + 1 \<le> real_of_int a"
      by linarith
    with x y have "Y < X" by linarith
    with 3 show ?thesis by simp
  qed
  then show ?thesis
    by (simp add: fless_iff X_def Y_def)
qed

lemma product_exact:
  assumes "\<bar>p * q\<bar> \<le> 10 ^ 13"
  shows "toFixed2 (fmul (parseFloat p) (ofInteger q)) = p * q"
proof (rule int_of_near [OF toFixed2_near])
  define u :: real where "u = 1 / 2 ^ 53"
  define v where "v = u + u + u * u"
  define t where "t = u + v + u * v"
  define y where "y = fmul (parseFloat p) (ofInteger q)"
  have u0: "0 \<le> u" by (simp add: u_def)
  have x1: "near u (valueOf (parseFloat p)) (real_of_int p / 100)"
    unfolding u_def by (rule parseFloat_near)
  have q1: "near u (valueOf (ofInteger q)) (real_of_int q)"
    using roundDouble_near [of 1 q 0] by (simp add: ofInteger_def u_def)
  have m: "near v (valueOf (parseFloat p) * valueOf (ofInteger q))
             (real_of_int p / 100 * real_of_int q)"
    unfolding v_def by (rule near_mult [OF x1 q1 u0])
  have f: "near u (valueOf y) (valueOf (parseFloat p) * valueOf (ofInteger q))"
    unfolding y_def u_def by (rule fmul_near)
  have "near t (valueOf y) (real_of_int p / 100 * real_of_int q)"
    unfolding t_def by (rule near_trans [OF f m u0])
  then have n: "\<bar>valueOf y - real_of_int (p * q) / 100\<bar> \<le> t * (\<bar>real_of_int (p * q)\<bar> / 100)"
    by (simp add: near_def)
  have "real_of_int \<bar>p * q\<bar> \<le> real_of_int (10 ^ 13)"
    using assms by (simp only: of_int_le_iff)
  then have pq: "\<bar>real_of_int (p * q)\<bar> \<le> 10 ^ 13"
    by simp
  have t0: "0 \<le> t" by (simp add: t_def v_def u_def)
  have "t * (\<bar>real_of_int (p * q)\<bar> / 100) \<le> t * (10 ^ 13 / 100)"
    using pq t0 by (intro mult_left_mono divide_right_mono) simp_all
  with n have n': "\<bar>valueOf y - real_of_int (p * q) / 100\<bar> \<le> t * (10 ^ 13 / 100)"
    by linarith
  have small: "100 * (t * (10 ^ 13 / 100)) < 1 / 2"
    by (simp add: t_def v_def u_def)
  show "\<bar>100 * valueOf (fmul (parseFloat p) (ofInteger q)) - real_of_int (p * q)\<bar> < 1 / 2"
    using n' small unfolding y_def by linarith
qed






section \<open>Properties of the sweeps\<close>

lemma release_release: "release (release i) = release i"
  by (simp add: release_def)

lemma expired_release: "\<not> expired t (release i)"
  by (simp add: expired_def release_def)

lemma expired_iff:
  "expired t i \<longleftrightarrow> i_status i = Reserved \<and> (\<exists>r. reservedUntil i = Some r \<and> r < t)"
  by (simp add: expired_def split: option.splits)

lemma stale_iff:
  "stale t x \<longleftrightarrow>
     o_status x = PendingPayment \<and> (\<exists>c. o_createdAt x = Some c \<and> c < t - 30 * 60 * 1000)"
  by (simp add: stale_def minutes30_def split: option.splits)

lemma expired_fun:
  "expired t = (\<lambda>i. i_status i = Reserved \<and> (\<exists>r. reservedUntil i = Some r \<and> r < t))"
  by (rule ext) (rule expired_iff)

lemma stale_fun:
  "stale t = (\<lambda>x. o_status x = PendingPayment \<and>
                  (\<exists>c. o_createdAt x = Some c \<and> c < t - 30 * 60 * 1000))"
  by (rule ext) (rule stale_iff)

lemma release_fun: "release = (\<lambda>i. i\<lparr>i_status := Available, reservedUntil := None\<rparr>)"
  by (rule ext) (rule release_def)

lemma cleanup_no_expired:
  "filter (expired t) (productItems (snd (cleanupExpiredReservations t s))) = []"
  by (auto simp: cleanupExpiredReservations_def filter_empty_conv expired_release)

lemma cleanup_fixed:
  assumes "filter (expired t) (productItems s) = []"
  shows "cleanupExpiredReservations t s = (0, s)"
proof -
  have "\<forall>i \<in> set (productItems s). \<not> expired t i"
    using assms by (simp add: filter_empty_conv)
  then have "map (\<lambda>i. if expired t i then release i else i) (productItems s) = productItems s"
    by (simp add: map_idI)
  then show ?thesis
    using assms by (simp add: cleanupExpiredReservations_def)
qed

lemma cleanup_idem:
  "cleanupExpiredReservations t (snd (cleanupExpiredReservations t s)) =
     (0, snd (cleanupExpiredReservations t s))"
  by (rule cleanup_fixed) (rule cleanup_no_expired)

lemma cancelOne_eq:
  "cancelOne s a =
     s\<lparr>productItems :=
         map (\<lambda>i. if productItemId a = Some (i_id i) then release i else i) (productItems s),
       orders := map (\<lambda>x. if o_id x = o_id a then x\<lparr>o_status := Cancelled\<rparr> else x) (orders s)\<rparr>"
  by (cases "productItemId a") (auto simp: cancelOne_def setOrderStatus_def map_idI)

lemma foldl_cancelOne:
  "foldl cancelOne s xs =
     s\<lparr>productItems :=
         map (\<lambda>i. if \<exists>x \<in> set xs. productItemId x = Some (i_id i) then release i else i)
           (productItems s),
       orders := map (\<lambda>x. if o_id x \<in> o_id ` set xs then x\<lparr>o_status := Cancelled\<rparr> else x)
           (orders s)\<rparr>"
proof (induction xs arbitrary: s)
  case Nil
  show ?case by simp
next
  case (Cons a xs)
  have items: "map ((\<lambda>i. if \<exists>x \<in> set xs. productItemId x = Some (i_id i) then release i else i) \<circ>
                    (\<lambda>i. if productItemId a = Some (i_id i) then release i else i)) l =
               map (\<lambda>i. if \<exists>x \<in> set (a # xs). productItemId x = Some (i_id i)
                        then release i else i) l" for l
    by (rule map_cong) (auto simp: release_release)
  have ords: "map ((\<lambda>x. if o_id x \<in> o_id ` set xs then x\<lparr>o_status := Cancelled\<rparr> else x) \<circ>
                   (\<lambda>x. if o_id x = o_id a then x\<lparr>o_status := Cancelled\<rparr> else x)) l =
              map (\<lambda>x. if o_id x \<in> o_id ` set (a # xs) then x\<lparr>o_status := Cancelled\<rparr> else x) l"
    for l :: "order_row list"
    by (rule map_cong) auto
  have "foldl cancelOne s (a # xs) = foldl cancelOne (cancelOne s a) xs"
    by simp
  also have "\<dots> = (cancelOne s a)\<lparr>productItems :=
        map (\<lambda>i. if \<exists>x \<in> set xs. productItemId x = Some (i_id i) then release i else i)
          (productItems (cancelOne s a)),
      orders := map (\<lambda>x. if o_id x \<in> o_id ` set xs then x\<lparr>o_status := Cancelled\<rparr> else x)
        (orders (cancelOne s a))\<rparr>"
    by (rule Cons.IH)
  also have "\<dots> = s\<lparr>productItems :=
        map (\<lambda>i. if \<exists>x \<in> set (a # xs). productItemId x = Some (i_id i) then release i else i)
          (productItems s),
      orders := map (\<lambda>x. if o_id x \<in> o_id ` set (a # xs) then x\<lparr>o_status := Cancelled\<rparr> else x)
        (orders s)\<rparr>"
    by (simp add: cancelOne_eq items ords del: set_simps image_insert bex_simps)
  finally show ?case .
qed

lemma stale_ids:
  assumes "distinct (map o_id os)" and "x \<in> set os"
  shows "o_id x \<in> o_id ` set (filter (stale t) os) \<longleftrightarrow> stale t x"
  using assms by (auto simp: distinct_map dest: inj_onD)

lemma cancel_eq:
  assumes "distinct (map o_id (orders s))"
  shows "cancelExpiredPendingOrders t s =
     (length (filter (stale t) (orders s)),
      s\<lparr>productItems :=
          map (\<lambda>i. if \<exists>x \<in> set (orders s). stale t x \<and> productItemId x = Some (i_id i)
                   then release i else i) (productItems s),
        orders := map (\<lambda>x. if stale t x then x\<lparr>o_status := Cancelled\<rparr> else x) (orders s)\<rparr>)"
proof -
  have a: "map (\<lambda>x. if o_id x \<in> o_id ` set (filter (stale t) (orders s))
                  then x\<lparr>o_status := Cancelled\<rparr> else x) (orders s) =
        map (\<lambda>x. if stale t x then x\<lparr>o_status := Cancelled\<rparr> else x) (orders s)"
    by (rule map_cong) (simp_all add: stale_ids [OF assms] del: set_filter)
  have b: "(\<exists>x \<in> set (filter (stale t) (orders s)). productItemId x = Some j) \<longleftrightarrow>
                 (\<exists>x \<in> set (orders s). stale t x \<and> productItemId x = Some j)" for j
    by auto
  show ?thesis
    by (simp only: cancelExpiredPendingOrders_def Let_def foldl_cancelOne a b)
qed

lemma not_stale_cancelled: "\<not> stale t (x\<lparr>o_status := Cancelled\<rparr>)"
  by (simp add: stale_def)

lemma cancel_no_stale:
  "filter (stale t) (orders (snd (cancelExpiredPendingOrders t s))) = []"
  unfolding cancelExpiredPendingOrders_def Let_def snd_conv foldl_cancelOne
  by (auto simp: filter_empty_conv not_stale_cancelled)

lemma cancel_fixed:
  "filter (stale t) (orders s) = [] \<Longrightarrow> cancelExpiredPendingOrders t s = (0, s)"
  by (simp add: cancelExpiredPendingOrders_def)

lemma cancel_idem:
  "cancelExpiredPendingOrders t (snd (cancelExpiredPendingOrders t s)) =
     (0, snd (cancelExpiredPendingOrders t s))"
  by (rule cancel_fixed) (rule cancel_no_stale)

text \<open>
  Claim C8. \<open>cleanupExpiredReservations\<close> makes available, with the expiry cleared,
  exactly the units that are reserved with an expiry before the current time, and returns
  their number. \<open>cancelExpiredPendingOrders\<close> cancels exactly the orders that are in
  \<open>pending_payment\<close> and were created more than 30 minutes before the current time, makes
  the unit bound to each of them available, and returns their number (order ids being
  the primary key). Run again at the same time, each sweep reports 0 rows and leaves the
  store as it is.
\<close>

theorem sweeps_exact_and_idempotent:
  assumes "distinct (map o_id (orders s))"
  shows "cleanupExpiredReservations t s =
           (length (filter (\<lambda>i. i_status i = Reserved \<and> (\<exists>r. reservedUntil i = Some r \<and> r < t))
              (productItems s)),
            s\<lparr>productItems :=
                map (\<lambda>i. if i_status i = Reserved \<and> (\<exists>r. reservedUntil i = Some r \<and> r < t)
                         then i\<lparr>i_status := Available, reservedUntil := None\<rparr> else i)
                  (productItems s)\<rparr>)
       \<and> cancelExpiredPendingOrders t s =
           (length (filter (\<lambda>x. o_status x = PendingPayment \<and>
                      (\<exists>c. o_createdAt x = Some c \<and> c < t - 30 * 60 * 1000)) (orders s)),
            s\<lparr>productItems :=
                map (\<lambda>i. if \<exists>x \<in> set (orders s). (o_status x = PendingPayment \<and>
                               (\<exists>c. o_createdAt x = Some c \<and> c < t - 30 * 60 * 1000)) \<and>
                               productItemId x = Some (i_id i)
                         then i\<lparr>i_status := Available, reservedUntil := None\<rparr> else i)
                  (productItems s),
              orders :=
                map (\<lambda>x. if o_status x = PendingPayment \<and>
                               (\<exists>c. o_createdAt x = Some c \<and> c < t - 30 * 60 * 1000)
                         then x\<lparr>o_status := Cancelled\<rparr> else x) (orders s)\<rparr>)
       \<and> cleanupExpiredReservations t (snd (cleanupExpiredReservations t s)) =
           (0, snd (cleanupExpiredReservations t s))
       \<and> cancelExpiredPendingOrders t (snd (cancelExpiredPendingOrders t s)) =
           (0, snd (cancelExpiredPendingOrders t s))"
proof (intro conjI)
  show "cleanupExpiredReservations t s =
           (length (filter (\<lambda>i. i_status i = Reserved \<and> (\<exists>r. reservedUntil i = Some r \<and> r < t))
              (productItems s)),
            s\<lparr>productItems :=
                map (\<lambda>i. if i_status i = Reserved \<and> (\<exists>r. reservedUntil i = Some r \<and> r < t)
                         then i\<lparr>i_status := Available, reservedUntil := None\<rparr> else i)
                  (productItems s)\<rparr>)"
    unfolding cleanupExpiredReservations_def expired_fun release_fun by (rule refl)
  show "cancelExpiredPendingOrders t s =
           (length (filter (\<lambda>x. o_status x = PendingPayment \<and>
                      (\<exists>c. o_createdAt x = Some c \<and> c < t - 30 * 60 * 1000)) (orders s)),
            s\<lparr>productItems :=
                map (\<lambda>i. if \<exists>x \<in> set (orders s). (o_status x = PendingPayment \<and>
                               (\<exists>c. o_createdAt x = Some c \<and> c < t - 30 * 60 * 1000)) \<and>
                               productItemId x = Some (i_id i)
                         then i\<lparr>i_status := Available, reservedUntil := None\<rparr> else i)
                  (productItems s),
              orders :=
                map (\<lambda>x. if o_status x = PendingPayment \<and>
                               (\<exists>c. o_createdAt x = Some c \<and> c < t - 30 * 60 * 1000)
                         then x\<lparr>o_status := Cancelled\<rparr> else x) (orders s)\<rparr>)"
    using cancel_eq [OF assms, of t] unfolding stale_fun release_fun stale_iff by simp
  show "cleanupExpiredReservations t (snd (cleanupExpiredReservations t s)) =
           (0, snd (cleanupExpiredReservations t s))"
    by (rule cleanup_idem)
  show "cancelExpiredPendingOrders t (snd (cancelExpiredPendingOrders t s)) =
           (0, snd (cancelExpiredPendingOrders t s))"
    by (rule cancel_idem)
qed

text \<open>
  The order of \<open>waiting\<close> has sat in \<open>pending_payment\<close> for 31 minutes at time 1861000:
  the sweep cancels it and unit \<open>i1\<close> is available again.
\<close>

theorem sweeps_exact_and_idempotent_witness:
  "distinct (map o_id (orders waiting))
   \<and> fst (cancelExpiredPendingOrders 1861000 waiting) = 1
   \<and> map o_status (orders (snd (cancelExpiredPendingOrders 1861000 waiting))) = [Cancelled]
   \<and> map i_status (productItems (snd (cancelExpiredPendingOrders 1861000 waiting))) =
       [Available, Available]
   \<and> fst (cleanupExpiredReservations 1861000 waiting) = 1
   \<and> cancelExpiredPendingOrders 1861000 (snd (cancelExpiredPendingOrders 1861000 waiting)) =
       (0, snd (cancelExpiredPendingOrders 1861000 waiting))"
proof -
  have d: "distinct (map o_id (orders waiting))"
    by (simp add: waiting_def shop_def)
  show ?thesis
    using d sweeps_exact_and_idempotent [OF d, of 1861000]
    by (simp add: waiting_def shop_def cancelExpiredPendingOrders_def
        cleanupExpiredReservations_def cancelOne_def setOrderStatus_def stale_def expired_def
        release_def minutes30_def)
qed

section \<open>Expired reservations and the two allocation reads\<close>

text \<open>
  Claim C9. A reserved unit whose expiry has passed should count as available for the
  single-unit read \<open>getAvailableProductItem\<close> as well as for the multi-unit read
  \<open>getAvailableProductItems\<close>. In the store \<open>lapsed\<close>, at time 1861000, the multi-unit
  read resets the unit and returns it, while the single-unit read finds nothing and the
  QR order is created with no unit bound.
\<close>

theorem single_read_skips_expired_reservation:
  "getAvailableProductItem ''p1'' lapsed = None
   \<and> fst (getAvailableProductItems ''p1'' 1 1861000 lapsed) =
       [\<lparr>i_id = ''i1'', i_productId = ''p1'', content = ''a1'',
         i_status = Available, reservedUntil = None\<rparr>]
   \<and> fst (postOrders env2 ''buyer'' ''p1'' 1 Qr lapsed) =
       Created \<lparr>o_id = ''o2'', orderCode = ''DH-2'', buyerId = ''buyer'',
                o_sellerId = ''seller'', o_productId = ''p1'', productItemId = None,
                quantity = 1, o_price = 10000000, paymentMethod = Qr,
                o_status = PendingPayment, deliveredContent = None,
                o_createdAt = Some 1861000\<rparr>"
  by (simp add: lapsed_def shop_def env2_def getAvailableProductItem_def
      getAvailableProductItems_def availableRows_def resetExpired_def expired_def release_def
      postOrders_def getProductWithSeller_def reserveOne_def createOrder_def Let_def)

section \<open>Sold units\<close>

text \<open>
  Claim C7. No operation should take a unit out of \<open>sold\<close>; cancelling an order should
  not make its sold unit available. After the buyer's wallet purchase in \<open>shop\<close>, unit
  \<open>i2\<close> is sold and bound to the paid order \<open>o1\<close>; the admin cancel of \<open>o1\<close> makes
  \<open>i2\<close> available again. In \<open>waiting\<close>, a wallet purchase at 1861000 sells unit \<open>i1\<close>,
  whose reservation for the unpaid order \<open>o1\<close> had run out; the sweep of unpaid orders
  that follows makes \<open>i1\<close> available again.
\<close>

theorem cancel_makes_sold_unit_available:
  "map (\<lambda>i. (i_id i, i_status i))
       (productItems (snd (postOrders env1 ''buyer'' ''p1'' 1 Wallet shop))) =
     [(''i1'', Reserved), (''i2'', Sold)]
   \<and> map (\<lambda>x. (o_id x, o_status x, productItemId x))
       (orders (snd (postOrders env1 ''buyer'' ''p1'' 1 Wallet shop))) =
     [(''o1'', Paid, Some ''i2'')]
   \<and> map (\<lambda>i. (i_id i, i_status i))
       (productItems (snd (adminCancelOrder ''o1''
          (snd (postOrders env1 ''buyer'' ''p1'' 1 Wallet shop))))) =
     [(''i1'', Reserved), (''i2'', Available)]
   \<and> map (\<lambda>i. (i_id i, i_status i))
       (productItems (snd (postOrders env2 ''buyer'' ''p1'' 1 Wallet waiting))) =
     [(''i1'', Sold), (''i2'', Reserved)]
   \<and> map (\<lambda>i. (i_id i, i_status i))
       (productItems (snd (cancelExpiredPendingOrders 1861000
          (snd (postOrders env2 ''buyer'' ''p1'' 1 Wallet waiting))))) =
     [(''i1'', Available), (''i2'', Reserved)]"
  by (simp add: waiting_def shop_def env1_def env2_def storage_defs handler_defs amounts
      cancelExpiredPendingOrders_def cancelOne_def stale_def)

section \<open>Balance and ledger\<close>

text \<open>
  Claim C3. The balance of an account should equal the signed sum of its wallet
  transactions, and no path should set a balance without appending an entry. The seller
  of \<open>shop\<close> has balance 0 and no entries. After the admin's PATCH of the user with
  \<open>walletBalance\<close> 123.45 the balance is 123.45, no entry was appended, and the signed
  sum is still 0.
\<close>

theorem admin_patch_sets_balance_without_entry:
  "signedSum ''seller'' shop = 0
   \<and> map_option walletBalance (getUser ''seller'' shop) = Some 0
   \<and> map_option walletBalance
       (getUser ''seller'' (snd (adminPatchUser ''seller'' (Some 12345) shop))) = Some 12345
   \<and> walletTransactions (snd (adminPatchUser ''seller'' (Some 12345) shop)) = []
   \<and> signedSum ''seller'' (snd (adminPatchUser ''seller'' (Some 12345) shop)) = 0"
  by (simp add: shop_def signedSum_def storage_defs handler_defs)

section \<open>The reservation made before the payment branch\<close>




section \<open>The handlers on their success path\<close>

lemma markSold_eq:
  "markSold s items =
     s\<lparr>productItems :=
         map (\<lambda>i. if i_id i \<in> i_id ` set items
                  then i\<lparr>i_status := Sold, reservedUntil := None\<rparr> else i) (productItems s)\<rparr>"
proof (induction items arbitrary: s)
  case Nil
  show ?case by (simp add: markSold_def)
next
  case (Cons a items)
  have "markSold s (a # items) = markSold (updateProductItemStatus (i_id a) Sold s) items"
    by (simp add: markSold_def)
  also have "\<dots> = s\<lparr>productItems :=
         map (\<lambda>i. if i_id i \<in> i_id ` set (a # items)
                  then i\<lparr>i_status := Sold, reservedUntil := None\<rparr> else i) (productItems s)\<rparr>"
    unfolding Cons.IH by (auto simp: updateProductItemStatus_def)
  finally show ?case .
qed

lemma frame_updateUserBalance [simp]:
  "products (updateUserBalance u a s) = products s"
  "productItems (updateUserBalance u a s) = productItems s"
  "orders (updateUserBalance u a s) = orders s"
  "walletTransactions (updateUserBalance u a s) = walletTransactions s"
  "pendingEarnings (updateUserBalance u a s) = pendingEarnings s"
  "referrals (updateUserBalance u a s) = referrals s"
  "userReferralCodes (updateUserBalance u a s) = userReferralCodes s"
  by (simp_all add: updateUserBalance_def)

lemma frame_creditUserWallet [simp]:
  "products (creditUserWallet u a s) = products s"
  "productItems (creditUserWallet u a s) = productItems s"
  "orders (creditUserWallet u a s) = orders s"
  "walletTransactions (creditUserWallet u a s) = walletTransactions s"
  "pendingEarnings (creditUserWallet u a s) = pendingEarnings s"
  "referrals (creditUserWallet u a s) = referrals s"
  "userReferralCodes (creditUserWallet u a s) = userReferralCodes s"
  by (simp_all add: creditUserWallet_def)

lemma frame_updateProductStock [simp]:
  "users (updateProductStock p n s) = users s"
  "productItems (updateProductStock p n s) = productItems s"
  "orders (updateProductStock p n s) = orders s"
  "walletTransactions (updateProductStock p n s) = walletTransactions s"
  "pendingEarnings (updateProductStock p n s) = pendingEarnings s"
  "referrals (updateProductStock p n s) = referrals s"
  "userReferralCodes (updateProductStock p n s) = userReferralCodes s"
  by (simp_all add: updateProductStock_def)

lemma frame_resetExpired [simp]:
  "users (resetExpired p t s) = users s"
  "products (resetExpired p t s) = products s"
  "orders (resetExpired p t s) = orders s"
  "walletTransactions (resetExpired p t s) = walletTransactions s"
  "pendingEarnings (resetExpired p t s) = pendingEarnings s"
  "referrals (resetExpired p t s) = referrals s"
  "userReferralCodes (resetExpired p t s) = userReferralCodes s"
  by (simp_all add: resetExpired_def)


lemma frame_reserveProductItem [simp]:
  "users (reserveProductItem i t s) = users s"
  "products (reserveProductItem i t s) = products s"
  "orders (reserveProductItem i t s) = orders s"
  "walletTransactions (reserveProductItem i t s) = walletTransactions s"
  "pendingEarnings (reserveProductItem i t s) = pendingEarnings s"
  "referrals (reserveProductItem i t s) = referrals s"
  "userReferralCodes (reserveProductItem i t s) = userReferralCodes s"
  by (simp_all add: reserveProductItem_def)

lemma frame_markSold [simp]:
  "users (markSold s l) = users s"
  "products (markSold s l) = products s"
  "orders (markSold s l) = orders s"
  "walletTransactions (markSold s l) = walletTransactions s"
  "pendingEarnings (markSold s l) = pendingEarnings s"
  "referrals (markSold s l) = referrals s"
  "userReferralCodes (markSold s l) = userReferralCodes s"
  by (simp_all add: markSold_eq)

lemma frame_updateOrderStatus [simp]:
  "users (updateOrderStatus oid st s) = users s"
  "products (updateOrderStatus oid st s) = products s"
  "productItems (updateOrderStatus oid st s) = productItems s"
  "walletTransactions (updateOrderStatus oid st s) = walletTransactions s"
  "pendingEarnings (updateOrderStatus oid st s) = pendingEarnings s"
  "referrals (updateOrderStatus oid st s) = referrals s"
  "userReferralCodes (updateOrderStatus oid st s) = userReferralCodes s"
  by (simp_all add: updateOrderStatus_def)

lemma frame_updateOrderDeliveredContent [simp]:
  "users (updateOrderDeliveredContent oid c s) = users s"
  "products (updateOrderDeliveredContent oid c s) = products s"
  "productItems (updateOrderDeliveredContent oid c s) = productItems s"
  "walletTransactions (updateOrderDeliveredContent oid c s) = walletTransactions s"
  "pendingEarnings (updateOrderDeliveredContent oid c s) = pendingEarnings s"
  "referrals (updateOrderDeliveredContent oid c s) = referrals s"
  "userReferralCodes (updateOrderDeliveredContent oid c s) = userReferralCodes s"
  by (simp_all add: updateOrderDeliveredContent_def)

lemma frame_createWalletTransaction [simp]:
  "users (createWalletTransaction tx s) = users s"
  "products (createWalletTransaction tx s) = products s"
  "productItems (createWalletTransaction tx s) = productItems s"
  "orders (createWalletTransaction tx s) = orders s"
  "pendingEarnings (createWalletTransaction tx s) = pendingEarnings s"
  "referrals (createWalletTransaction tx s) = referrals s"
  "userReferralCodes (createWalletTransaction tx s) = userReferralCodes s"
  by (simp_all add: createWalletTransaction_def)

lemma frame_updateReferralEarnings [simp]:
  "users (updateReferralEarnings r a s) = users s"
  "products (updateReferralEarnings r a s) = products s"
  "productItems (updateReferralEarnings r a s) = productItems s"
  "orders (updateReferralEarnings r a s) = orders s"
  "walletTransactions (updateReferralEarnings r a s) = walletTransactions s"
  "pendingEarnings (updateReferralEarnings r a s) = pendingEarnings s"
  "userReferralCodes (updateReferralEarnings r a s) = userReferralCodes s"
  by (simp_all add: updateReferralEarnings_def)

lemma frame_updateReferrerTotalEarnings [simp]:
  "users (updateReferrerTotalEarnings u a s) = users s"
  "products (updateReferrerTotalEarnings u a s) = products s"
  "productItems (updateReferrerTotalEarnings u a s) = productItems s"
  "orders (updateReferrerTotalEarnings u a s) = orders s"
  "walletTransactions (updateReferrerTotalEarnings u a s) = walletTransactions s"
  "pendingEarnings (updateReferrerTotalEarnings u a s) = pendingEarnings s"
  "referrals (updateReferrerTotalEarnings u a s) = referrals s"
  by (simp_all add: updateReferrerTotalEarnings_def)

lemma frame_payReferral [simp]:
  "products (payReferral b p oid s) = products s"
  "productItems (payReferral b p oid s) = productItems s"
  "orders (payReferral b p oid s) = orders s"
  "pendingEarnings (payReferral b p oid s) = pendingEarnings s"
  by (simp_all add: payReferral_def Let_def split: option.splits)

lemma frame_getAvailableProductItems [simp]:
  "users (snd (getAvailableProductItems p n t s)) = users s"
  "products (snd (getAvailableProductItems p n t s)) = products s"
  "orders (snd (getAvailableProductItems p n t s)) = orders s"
  "walletTransactions (snd (getAvailableProductItems p n t s)) = walletTransactions s"
  "pendingEarnings (snd (getAvailableProductItems p n t s)) = pendingEarnings s"
  "referrals (snd (getAvailableProductItems p n t s)) = referrals s"
  "userReferralCodes (snd (getAvailableProductItems p n t s)) = userReferralCodes s"
  by (simp_all add: getAvailableProductItems_def Let_def)

lemma frame_reserveOne [simp]:
  "users (snd (reserveOne e p s)) = users s"
  "products (snd (reserveOne e p s)) = products s"
  "orders (snd (reserveOne e p s)) = orders s"
  "walletTransactions (snd (reserveOne e p s)) = walletTransactions s"
  "pendingEarnings (snd (reserveOne e p s)) = pendingEarnings s"
  "referrals (snd (reserveOne e p s)) = referrals s"
  "userReferralCodes (snd (reserveOne e p s)) = userReferralCodes s"
  by (simp_all add: reserveOne_def split: option.splits)


















section \<open>The seller's share\<close>


















section \<open>Referral commission\<close>




section \<open>Releasing a pending earning\<close>



lemma pendingEarnings_creditSeller [simp]:
  "pendingEarnings (creditSeller rel why s) = pendingEarnings s"
  by (simp add: creditSeller_def split: option.splits)



lemma getUser_pendingEarnings_update [simp]:
  "getUser v (s\<lparr>pendingEarnings := l\<rparr>) = getUser v s"
  by (simp add: getUser_def)

lemma walletTransactions_pendingEarnings_update [simp]:
  "walletTransactions (s\<lparr>pendingEarnings := l\<rparr>) = walletTransactions s"
  by simp

lemma releaseEntry_markReleased [simp]:
  "releaseEntry why (markReleased t y) = releaseEntry why y"
  by (simp add: releaseEntry_def markReleased_def)


lemma balanceOf_pendingEarnings_update [simp]:
  "balanceOf u (s\<lparr>pendingEarnings := l\<rparr>) = balanceOf u s"
  by (simp add: balanceOf_def getUser_def)

lemma e_id_markReleased [simp]: "e_id (markReleased t y) = e_id y"
  and e_amount_markReleased [simp]: "e_amount (markReleased t y) = e_amount y"
  and e_sellerId_markReleased [simp]: "e_sellerId (markReleased t y) = e_sellerId y"
  and e_status_markReleased [simp]: "e_status (markReleased t y) = Released"
  by (simp_all add: markReleased_def)









lemma not_releasable_markReleased [simp]: "\<not> releasable t' (markReleased t y)"
  by (simp add: releasable_def)














section \<open>Failures on the wallet path\<close>


lemma soldFlags_resetExpired [simp]: "soldFlags (resetExpired pid t s) = soldFlags s"
  by (simp add: soldFlags_def resetExpired_def expired_def release_def)















section \<open>A wallet purchase\<close>












end
